theory Spec2Isabelle
  imports Complex_Main "HOL-Library.Word" "HOL-Library.Log_Nat"
begin

unbundle bit_operations_syntax

section \<open>Data model of the audio policy manager\<close>

text \<open>
  The development embeds the routing functions of
  \<^verbatim>\<open>services/audiopolicy/managerdefault/AudioPolicyManager.cpp\<close>.
  Bit masks and the unsigned millisecond quantities are 32-bit words; handles, uids and
  volume indices are integers.  Descriptors are shared objects in the source
  (\<^verbatim>\<open>sp<>\<close> pointers held by several collections), so the model keeps them in a
  store addressed by their I/O handle and passes handles where the source passes pointers.
\<close>

type_synonym audio_devices_t = "32 word"
type_synonym audio_output_flags_t = "32 word"
type_synonym audio_input_flags_t = "32 word"
type_synonym audio_format_t = "32 word"
type_synonym uint32_t = "32 word"
type_synonym audio_io_handle_t = int
type_synonym audio_patch_handle_t = int
type_synonym audio_port_handle_t = int
type_synonym audio_session_t = int
type_synonym audio_module_handle_t = int
type_synonym uid_t = int
type_synonym status_t = int

definition AUDIO_DEVICE_NONE :: audio_devices_t where
  "AUDIO_DEVICE_NONE = 0"

definition AUDIO_IO_HANDLE_NONE :: audio_io_handle_t where
  "AUDIO_IO_HANDLE_NONE = 0"

definition AUDIO_PATCH_HANDLE_NONE :: audio_patch_handle_t where
  "AUDIO_PATCH_HANDLE_NONE = 0"

definition AUDIO_PORT_HANDLE_NONE :: audio_port_handle_t where
  "AUDIO_PORT_HANDLE_NONE = 0"

definition AUDIO_FORMAT_INVALID :: audio_format_t where
  "AUDIO_FORMAT_INVALID = 0xFFFFFFFF"

definition AUDIO_OUTPUT_FLAG_NONE :: audio_output_flags_t where
  "AUDIO_OUTPUT_FLAG_NONE = 0x0"

definition AUDIO_OUTPUT_FLAG_DIRECT :: audio_output_flags_t where
  "AUDIO_OUTPUT_FLAG_DIRECT = 0x1"

definition AUDIO_OUTPUT_FLAG_PRIMARY :: audio_output_flags_t where
  "AUDIO_OUTPUT_FLAG_PRIMARY = 0x2"

definition AUDIO_INPUT_FLAG_MMAP_NOIRQ :: audio_input_flags_t where
  "AUDIO_INPUT_FLAG_MMAP_NOIRQ = 0x10"

definition AUDIO_DEVICE_OUT_ALL_SCO :: audio_devices_t where
  "AUDIO_DEVICE_OUT_ALL_SCO = 0x70"

definition NO_ERROR :: status_t where
  "NO_ERROR = 0"

definition BAD_VALUE :: status_t where
  "BAD_VALUE = - 22"

definition INVALID_OPERATION :: status_t where
  "INVALID_OPERATION = - 38"

text \<open>\<^verbatim>\<open>popcount\<close>: the number of bits set in a 32-bit mask.\<close>

definition popcount :: "32 word \<Rightarrow> nat" where
  "popcount w = length (filter (\<lambda>i. bit w i) [0..<32])"

text \<open>
  The stream types below \<^verbatim>\<open>AUDIO_STREAM_FOR_POLICY_CNT\<close>, in the order of their
  numeric values, and the routing strategies below \<^verbatim>\<open>NUM_STRATEGIES\<close> in the order
  of theirs; \<^verbatim>\<open>STRATEGY_NONE\<close> is the value \<open>-1\<close> used as a wildcard filter.
\<close>

datatype audio_stream_type_t =
    AUDIO_STREAM_VOICE_CALL
  | AUDIO_STREAM_SYSTEM
  | AUDIO_STREAM_RING
  | AUDIO_STREAM_MUSIC
  | AUDIO_STREAM_ALARM
  | AUDIO_STREAM_NOTIFICATION
  | AUDIO_STREAM_BLUETOOTH_SCO
  | AUDIO_STREAM_ENFORCED_AUDIBLE
  | AUDIO_STREAM_DTMF
  | AUDIO_STREAM_TTS
  | AUDIO_STREAM_ACCESSIBILITY
  | AUDIO_STREAM_REROUTING

definition policy_streams :: "audio_stream_type_t list" where
  "policy_streams =
     [AUDIO_STREAM_VOICE_CALL, AUDIO_STREAM_SYSTEM, AUDIO_STREAM_RING, AUDIO_STREAM_MUSIC,
      AUDIO_STREAM_ALARM, AUDIO_STREAM_NOTIFICATION, AUDIO_STREAM_BLUETOOTH_SCO,
      AUDIO_STREAM_ENFORCED_AUDIBLE, AUDIO_STREAM_DTMF, AUDIO_STREAM_TTS,
      AUDIO_STREAM_ACCESSIBILITY, AUDIO_STREAM_REROUTING]"

datatype routing_strategy =
    STRATEGY_NONE
  | STRATEGY_MEDIA
  | STRATEGY_PHONE
  | STRATEGY_SONIFICATION
  | STRATEGY_SONIFICATION_RESPECTFUL
  | STRATEGY_DTMF
  | STRATEGY_ENFORCED_AUDIBLE
  | STRATEGY_TRANSMITTED_THROUGH_SPEAKER
  | STRATEGY_ACCESSIBILITY
  | STRATEGY_REROUTING

definition all_strategies :: "routing_strategy list" where
  "all_strategies =
     [STRATEGY_MEDIA, STRATEGY_PHONE, STRATEGY_SONIFICATION, STRATEGY_SONIFICATION_RESPECTFUL,
      STRATEGY_DTMF, STRATEGY_ENFORCED_AUDIBLE, STRATEGY_TRANSMITTED_THROUGH_SPEAKER,
      STRATEGY_ACCESSIBILITY, STRATEGY_REROUTING]"

datatype audio_policy_force_use_t =
    AUDIO_POLICY_FORCE_FOR_COMMUNICATION
  | AUDIO_POLICY_FORCE_FOR_MEDIA
  | AUDIO_POLICY_FORCE_FOR_RECORD
  | AUDIO_POLICY_FORCE_FOR_DOCK
  | AUDIO_POLICY_FORCE_FOR_SYSTEM

datatype audio_policy_forced_cfg_t =
    AUDIO_POLICY_FORCE_NONE
  | AUDIO_POLICY_FORCE_SPEAKER
  | AUDIO_POLICY_FORCE_HEADPHONES
  | AUDIO_POLICY_FORCE_BT_SCO
  | AUDIO_POLICY_FORCE_SYSTEM_ENFORCED
  | AUDIO_POLICY_FORCE_OTHER nat

datatype audio_source_t =
    AUDIO_SOURCE_DEFAULT
  | AUDIO_SOURCE_HOTWORD
  | AUDIO_SOURCE_OTHER nat

subsection \<open>Descriptors\<close>

record DeviceDescriptor =
  deviceId :: audio_port_handle_t
  deviceType :: audio_devices_t
  deviceAddress :: string

record TrackClientDescriptor =
  trackPortId :: audio_port_handle_t
  trackActive :: bool
  trackStrategy :: routing_strategy
  trackPreferredDeviceId :: audio_port_handle_t

text \<open>
  An output descriptor.  \<open>mDevice\<close>, \<open>mFlags\<close>, \<open>mFormat\<close>, \<open>mMuteCount\<close> and
  \<open>mStrategyMutedByDevice\<close> are the members the source file reads and writes directly.
  The other fields hold what the accessors of the descriptor class, which is declared
  outside this file, answer for the object: \<open>profileFlags\<close> is
  \<^verbatim>\<open>mProfile->getFlags()\<close>, \<open>supportedDevices\<close> is \<^verbatim>\<open>supportedDevices()\<close>,
  \<open>latency\<close> is \<^verbatim>\<open>latency()\<close>, \<open>isActive\<close> is \<^verbatim>\<open>isActive()\<close>,
  \<open>isStreamActive\<close> is \<^verbatim>\<open>isStreamActive(stream, 0, 0)\<close>, \<open>isFixedVolume\<close> is
  \<^verbatim>\<open>isFixedVolume(device)\<close>, \<open>moduleHandle\<close> decides \<^verbatim>\<open>sharesHwModuleWith\<close>,
  \<open>mPatchHandle\<close> is read by \<^verbatim>\<open>getPatchHandle()\<close> and written by
  \<^verbatim>\<open>setPatchHandle()\<close>.  The element type of \<open>mMuteCount\<close> is declared with the
  class; the counter is an integer here.
\<close>

record SwAudioOutputDescriptor =
  mDevice :: audio_devices_t
  mFlags :: audio_output_flags_t
  mFormat :: audio_format_t
  mMuteCount :: "audio_stream_type_t \<Rightarrow> int"
  mStrategyMutedByDevice :: "routing_strategy \<Rightarrow> bool"
  mPatchHandle :: audio_patch_handle_t
  isDuplicated :: bool
  subOutput1 :: audio_io_handle_t
  subOutput2 :: audio_io_handle_t
  profileFlags :: audio_output_flags_t
  supportedDevices :: audio_devices_t
  latency :: uint32_t
  isActive :: bool
  isStreamActive :: "audio_stream_type_t \<Rightarrow> bool"
  isFixedVolume :: "audio_devices_t \<Rightarrow> bool"
  moduleHandle :: audio_module_handle_t
  trackClients :: "TrackClientDescriptor list"

record RecordClientDescriptor =
  recPortId :: audio_port_handle_t
  recSession :: audio_session_t
  recSource :: audio_source_t
  recFlags :: audio_input_flags_t
  recActive :: bool
  recSilenced :: bool

text \<open>
  An input descriptor.  \<open>inDevice\<close> is the member \<^verbatim>\<open>mDevice\<close>; the other
  fields hold the answers of the accessors \<^verbatim>\<open>getId()\<close>, \<^verbatim>\<open>getModuleHandle()\<close>,
  \<^verbatim>\<open>getAudioPort()->getFlags()\<close>, \<^verbatim>\<open>isSoundTrigger()\<close>,
  \<^verbatim>\<open>getPreemptedSessions()\<close> and \<^verbatim>\<open>getPatchHandle()\<close>, and the clients attached
  to the input.
\<close>

record AudioInputDescriptor =
  inDevice :: audio_devices_t
  inId :: audio_port_handle_t
  inModuleHandle :: audio_module_handle_t
  inPortFlags :: audio_input_flags_t
  inIsSoundTrigger :: bool
  inPreemptedSessions :: "audio_session_t list"
  inPatchHandle :: audio_patch_handle_t
  recordClients :: "RecordClientDescriptor list"

subsection \<open>Patches\<close>

datatype audio_port_config =
    PortMixOutput audio_io_handle_t
  | PortMixInput audio_io_handle_t
  | PortDevice DeviceDescriptor

record audio_patch =
  sources :: "audio_port_config list"
  sinks :: "audio_port_config list"

record AudioPatch =
  mHandle :: audio_patch_handle_t
  mPatch :: audio_patch
  mUid :: uid_t
  mAfPatchHandle :: audio_patch_handle_t

subsection \<open>Calls that leave the manager\<close>

text \<open>
  The manager drives the audio transport (\<^verbatim>\<open>mpClientInterface\<close>) and the volume
  methods of the descriptors.  Each such call is appended to the list \<open>calls\<close> of the
  manager state, in the order in which the source issues it.  Decibel and voice volumes
  are C floats in the source; the model carries them as real numbers and only compares
  them.
\<close>

datatype call =
    SetVolume audio_io_handle_t real audio_stream_type_t audio_devices_t uint32_t bool
  | SetVoiceVolume real uint32_t
  | CreateAudioPatch audio_patch audio_patch_handle_t uint32_t
  | ReleaseAudioPatch audio_patch_handle_t uint32_t
  | OnAudioPatchListUpdate
  | SetParameters audio_io_handle_t audio_devices_t uint32_t
  | Usleep uint32_t

subsection \<open>The manager state\<close>

text \<open>
  \<open>outputs\<close> and \<open>inputs\<close> are the stores of descriptor objects; \<open>mOutputs\<close> and
  \<open>mInputs\<close> list the handles registered in the two collections, in key order.
  \<open>mAudioPatches\<close> is the patch collection keyed by patch handle.
  \<open>mCallTxPatchModule\<close> is \<open>None\<close> when \<^verbatim>\<open>mCallTxPatch\<close> is null and otherwise the
  hardware module of the first source of that patch.
\<close>

record AudioPolicyManager =
  outputs :: "audio_io_handle_t \<Rightarrow> SwAudioOutputDescriptor"
  mOutputs :: "audio_io_handle_t list"
  inputs :: "audio_io_handle_t \<Rightarrow> AudioInputDescriptor"
  mInputs :: "audio_io_handle_t list"
  mAudioPatches :: "audio_patch_handle_t \<rightharpoonup> AudioPatch"
  mNextUniqueId :: audio_patch_handle_t
  mUidCached :: uid_t
  mDeviceForStrategy :: "routing_strategy \<Rightarrow> audio_devices_t"
  mAvailableOutputDevices :: "DeviceDescriptor list"
  mAvailableInputDevices :: "DeviceDescriptor list"
  mLastVoiceVolume :: real
  mAudioPortGeneration :: uint32_t
  mCallTxPatchModule :: "audio_module_handle_t option"
  calls :: "call list"

text \<open>
  What the manager consumes from outside the file: the inline functions of the platform
  headers, the strategy engine (\<^verbatim>\<open>mEngine\<close>), the volume curves
  (\<^verbatim>\<open>mVolumeCurves\<close>), the results of the transport calls, the device-vector queries,
  \<^verbatim>\<open>inputSource(true)\<close> of an input descriptor, and two functions of the file whose
  bodies are not embedded: \<^verbatim>\<open>computeVolume\<close> (floating-point arithmetic on the
  volume curves) and \<^verbatim>\<open>closeClient\<close> (\<^verbatim>\<open>stopInput\<close> followed by
  \<^verbatim>\<open>releaseInput\<close>); their results are taken as given.  They are parameters of
  every function below.
\<close>

record Collaborators =
  audio_is_linear_pcm :: "audio_format_t \<Rightarrow> bool"
  isBetterFormatMatch :: "audio_format_t \<Rightarrow> audio_format_t \<Rightarrow> audio_format_t \<Rightarrow> bool"
  is_virtual_input_device :: "audio_devices_t \<Rightarrow> bool"
  is_state_in_call :: "int \<Rightarrow> bool"
  getStrategyForStream :: "audio_stream_type_t \<Rightarrow> routing_strategy"
  engineGetDeviceForStrategy :: "routing_strategy \<Rightarrow> audio_devices_t"
  getForceUse :: "audio_policy_force_use_t \<Rightarrow> audio_policy_forced_cfg_t"
  getPhoneState :: int
  canBeMuted :: "audio_stream_type_t \<Rightarrow> bool"
  getVolumeIndex :: "audio_stream_type_t \<Rightarrow> audio_devices_t \<Rightarrow> int"
  getVolumeIndexMin :: "audio_stream_type_t \<Rightarrow> int"
  getVolumeIndexMax :: "audio_stream_type_t \<Rightarrow> int"
  computeVolume :: "AudioPolicyManager \<Rightarrow> audio_stream_type_t \<Rightarrow> int \<Rightarrow> audio_devices_t \<Rightarrow> real"
  createAudioPatch :: "audio_patch \<Rightarrow> audio_patch_handle_t \<Rightarrow> uint32_t \<Rightarrow> status_t \<times> audio_patch_handle_t"
  releaseAudioPatch :: "audio_patch_handle_t \<Rightarrow> uint32_t \<Rightarrow> status_t"
  getDevicesFromTypeMask :: "DeviceDescriptor list \<Rightarrow> audio_devices_t \<Rightarrow> DeviceDescriptor list"
  getDevice :: "DeviceDescriptor list \<Rightarrow> audio_devices_t \<Rightarrow> string \<Rightarrow> DeviceDescriptor option"
  inputSource :: "AudioInputDescriptor \<Rightarrow> audio_source_t"
  soundTriggerSupportsConcurrentCapture :: bool
  closeClient :: "audio_port_handle_t \<Rightarrow> AudioPolicyManager \<Rightarrow> AudioPolicyManager"

section \<open>Output selection\<close>

text \<open>
  \<^verbatim>\<open>AudioPolicyManager::selectOutput\<close>.  The local variables of the loop are the
  fields of \<open>select_state\<close>; \<open>selectOutput_step\<close> is one iteration of the
  \<^verbatim>\<open>for (audio_io_handle_t output : outputs)\<close> loop, with each \<^verbatim>\<open>continue\<close> leaving
  the variables as they are.
\<close>

record select_state =
  maxCommonFlags :: nat
  outputForFlags :: audio_io_handle_t
  outputForPrimary :: audio_io_handle_t
  outputForFormat :: audio_io_handle_t
  bestFormat :: audio_format_t
  bestFormatForFlags :: audio_format_t

definition select_init :: select_state where
  "select_init =
     \<lparr>maxCommonFlags = 0,
      outputForFlags = AUDIO_IO_HANDLE_NONE,
      outputForPrimary = AUDIO_IO_HANDLE_NONE,
      outputForFormat = AUDIO_IO_HANDLE_NONE,
      bestFormat = AUDIO_FORMAT_INVALID,
      bestFormatForFlags = AUDIO_FORMAT_INVALID\<rparr>"

definition selectOutput_step ::
  "Collaborators \<Rightarrow> AudioPolicyManager \<Rightarrow> audio_output_flags_t \<Rightarrow>
   audio_format_t \<Rightarrow> select_state \<Rightarrow> audio_io_handle_t \<Rightarrow> select_state" where
  "selectOutput_step E st flags format s output =
     (let outputDesc = outputs st output in
      if isDuplicated outputDesc then s
      else if mFlags outputDesc AND AUDIO_OUTPUT_FLAG_DIRECT \<noteq> 0 then s
      else if format \<noteq> AUDIO_FORMAT_INVALID \<and> \<not> audio_is_linear_pcm E format then s
      else
        let s1 = (if format \<noteq> AUDIO_FORMAT_INVALID \<and>
                     isBetterFormatMatch E (mFormat outputDesc) (bestFormat s) format
                  then s\<lparr>outputForFormat := output, bestFormat := mFormat outputDesc\<rparr>
                  else s);
            commonFlags = popcount (profileFlags outputDesc AND flags);
            s2 = (if commonFlags \<ge> maxCommonFlags s1 then
                    (if commonFlags = maxCommonFlags s1 then
                       (if format \<noteq> AUDIO_FORMAT_INVALID \<and>
                           isBetterFormatMatch E (mFormat outputDesc) (bestFormatForFlags s1) format
                        then s1\<lparr>outputForFlags := output,
                                bestFormatForFlags := mFormat outputDesc\<rparr>
                        else s1)
                     else s1\<lparr>outputForFlags := output,
                             maxCommonFlags := commonFlags,
                             bestFormatForFlags := mFormat outputDesc\<rparr>)
                  else s1)
        in if profileFlags outputDesc AND AUDIO_OUTPUT_FLAG_PRIMARY \<noteq> 0
           then s2\<lparr>outputForPrimary := output\<rparr>
           else s2)"

definition selectOutput ::
  "Collaborators \<Rightarrow> AudioPolicyManager \<Rightarrow> audio_io_handle_t list \<Rightarrow>
   audio_output_flags_t \<Rightarrow> audio_format_t \<Rightarrow> audio_io_handle_t" where
  "selectOutput E st outs flags format =
     (case outs of
        [] \<Rightarrow> AUDIO_IO_HANDLE_NONE
      | [output] \<Rightarrow> output
      | first # _ \<Rightarrow>
          (let s = foldl (selectOutput_step E st flags format) select_init outs in
           if outputForFlags s \<noteq> AUDIO_IO_HANDLE_NONE then outputForFlags s
           else if outputForFormat s \<noteq> AUDIO_IO_HANDLE_NONE then outputForFormat s
           else if outputForPrimary s \<noteq> AUDIO_IO_HANDLE_NONE then outputForPrimary s
           else first))"

section \<open>Accessors of the output descriptor\<close>

text \<open>
  Modelled from the spec: \<^verbatim>\<open>device()\<close> is declared with the descriptor class, outside
  the file.  The spec gives every stream a current device bitmask and lets a duplicated
  output fan out to two underlying ones: a plain output answers its member \<open>mDevice\<close>,
  a duplicated one the union of the devices of its two sub-outputs.
\<close>

definition device_of :: "AudioPolicyManager \<Rightarrow> audio_io_handle_t \<Rightarrow> audio_devices_t" where
  "device_of st out =
     (let outputDesc = outputs st out in
      if isDuplicated outputDesc
      then mDevice (outputs st (subOutput1 outputDesc)) OR mDevice (outputs st (subOutput2 outputDesc))
      else mDevice outputDesc)"

text \<open>
  Modelled from the spec: \<^verbatim>\<open>sharesHwModuleWith\<close> is declared with the descriptor
  class.  Every descriptor has one owning hardware module; two outputs share a module
  when it is the same one.
\<close>

definition sharesHwModuleWith :: "SwAudioOutputDescriptor \<Rightarrow> SwAudioOutputDescriptor \<Rightarrow> bool" where
  "sharesHwModuleWith a b \<longleftrightarrow> moduleHandle a = moduleHandle b"

text \<open>Updating one descriptor object of the store, and appending to the call list.\<close>

definition updOutput ::
  "audio_io_handle_t \<Rightarrow> (SwAudioOutputDescriptor \<Rightarrow> SwAudioOutputDescriptor) \<Rightarrow>
   AudioPolicyManager \<Rightarrow> AudioPolicyManager" where
  "updOutput out f st = st\<lparr>outputs := (outputs st)(out := f (outputs st out))\<rparr>"

definition updInput ::
  "audio_io_handle_t \<Rightarrow> (AudioInputDescriptor \<Rightarrow> AudioInputDescriptor) \<Rightarrow>
   AudioPolicyManager \<Rightarrow> AudioPolicyManager" where
  "updInput inp f st = st\<lparr>inputs := (inputs st)(inp := f (inputs st inp))\<rparr>"

definition emit :: "call \<Rightarrow> AudioPolicyManager \<Rightarrow> AudioPolicyManager" where
  "emit c st = st\<lparr>calls := calls st @ [c]\<rparr>"

section \<open>Strategies\<close>

definition getStrategy :: "Collaborators \<Rightarrow> audio_stream_type_t \<Rightarrow> routing_strategy" where
  "getStrategy E stream = getStrategyForStream E stream"

text \<open>
  \<^verbatim>\<open>isStrategyActive\<close> and \<^verbatim>\<open>isStrategyActiveOnSameModule\<close> with the arguments
  \<^verbatim>\<open>inPastMs\<close> and \<^verbatim>\<open>sysTime\<close> left at zero, as every call of the functions
  embedded here leaves them.
\<close>

definition isStrategyActive ::
  "Collaborators \<Rightarrow> SwAudioOutputDescriptor \<Rightarrow> routing_strategy \<Rightarrow> bool" where
  "isStrategyActive E outputDesc strategy =
     list_ex (\<lambda>i. (getStrategy E i = strategy \<or> STRATEGY_NONE = strategy) \<and>
                    isStreamActive outputDesc i) policy_streams"

definition isStrategyActiveOnSameModule ::
  "Collaborators \<Rightarrow> AudioPolicyManager \<Rightarrow> SwAudioOutputDescriptor \<Rightarrow> routing_strategy \<Rightarrow> bool" where
  "isStrategyActiveOnSameModule E st outputDesc strategy =
     list_ex (\<lambda>h. sharesHwModuleWith outputDesc (outputs st h) \<and>
                    isStrategyActive E (outputs st h) strategy) (mOutputs st)"

definition isInCall :: "Collaborators \<Rightarrow> bool" where
  "isInCall E = is_state_in_call E (getPhoneState E)"

section \<open>Explicit routing\<close>

text \<open>
  Modelled from the spec: \<^verbatim>\<open>clientsList\<close> and \<^verbatim>\<open>getDeviceFromId\<close> are declared
  outside the file.  The spec gives every client an active flag and an optional explicit
  preferred device: \<open>clientsList\<close> keeps the clients that are active (when asked),
  that match the strategy filter (the wildcard \<open>STRATEGY_NONE\<close> matches all) and that
  have a preferred device (when asked); \<open>getDeviceFromId\<close> is the available device
  with the given identifier, if there is one.
\<close>

definition clientsList ::
  "bool \<Rightarrow> routing_strategy \<Rightarrow> bool \<Rightarrow> TrackClientDescriptor list \<Rightarrow> TrackClientDescriptor list" where
  "clientsList activeOnly strategy preferredDeviceOnly cs =
     filter (\<lambda>c. (trackActive c \<or> \<not> activeOnly) \<and>
                   (strategy = STRATEGY_NONE \<or> trackStrategy c = strategy) \<and>
                   (trackPreferredDeviceId c \<noteq> AUDIO_PORT_HANDLE_NONE \<or> \<not> preferredDeviceOnly)) cs"

definition getDeviceFromId :: "DeviceDescriptor list \<Rightarrow> audio_port_handle_t \<Rightarrow> DeviceDescriptor option" where
  "getDeviceFromId devices ident = find (\<lambda>d. deviceId d = ident) devices"

text \<open>
  \<^verbatim>\<open>findPreferredDevice\<close> for one descriptor returns the device (or null) and, through
  its reference argument, whether a client is active.
\<close>

definition findPreferredDevice ::
  "SwAudioOutputDescriptor \<Rightarrow> routing_strategy \<Rightarrow> DeviceDescriptor list \<Rightarrow>
   DeviceDescriptor option \<times> bool" where
  "findPreferredDevice desc strategy devices =
     (let activeClients = clientsList True STRATEGY_NONE False (trackClients desc);
          activeClientsWithRoute = clientsList True strategy True (trackClients desc);
          active = (length activeClients > 0)
      in if active \<and> length activeClients = length activeClientsWithRoute
         then (case activeClientsWithRoute of
                 [] \<Rightarrow> (None, active)
               | c # _ \<Rightarrow> (getDeviceFromId devices (trackPreferredDeviceId c), active))
         else (None, active))"

text \<open>The overload over a whole collection: the loop with its early return.\<close>

fun findPreferredDevice_loop ::
  "routing_strategy \<Rightarrow> DeviceDescriptor list \<Rightarrow> DeviceDescriptor option \<Rightarrow>
   SwAudioOutputDescriptor list \<Rightarrow> DeviceDescriptor option" where
  "findPreferredDevice_loop strategy devices device [] = device"
| "findPreferredDevice_loop strategy devices device (desc # rest) =
     (case findPreferredDevice desc strategy devices of
        (curDevice, active) \<Rightarrow>
          if active \<and> curDevice = None then None
          else if curDevice \<noteq> None
               then findPreferredDevice_loop strategy devices curDevice rest
               else findPreferredDevice_loop strategy devices device rest)"

definition findPreferredDevice_all ::
  "AudioPolicyManager \<Rightarrow> routing_strategy \<Rightarrow> DeviceDescriptor list \<Rightarrow> DeviceDescriptor option" where
  "findPreferredDevice_all st strategy devices =
     findPreferredDevice_loop strategy devices None (map (outputs st) (mOutputs st))"

definition getDeviceForStrategy ::
  "Collaborators \<Rightarrow> AudioPolicyManager \<Rightarrow> routing_strategy \<Rightarrow> bool \<Rightarrow> audio_devices_t" where
  "getDeviceForStrategy E st strategy fromCache =
     (case findPreferredDevice_all st strategy (mAvailableOutputDevices st) of
        Some deviceDesc \<Rightarrow> deviceType deviceDesc
      | None \<Rightarrow> if fromCache then mDeviceForStrategy st strategy
                else engineGetDeviceForStrategy E strategy)"

section \<open>Device selection for an output\<close>

definition getNewOutputDevice ::
  "Collaborators \<Rightarrow> AudioPolicyManager \<Rightarrow> audio_io_handle_t \<Rightarrow> bool \<Rightarrow> audio_devices_t" where
  "getNewOutputDevice E st out fromCache =
     (let outputDesc = outputs st out in
      case (case mAudioPatches st (mPatchHandle outputDesc) of
              Some patchDesc \<Rightarrow> if mUid patchDesc \<noteq> mUidCached st then Some (device_of st out) else None
            | None \<Rightarrow> None) of
        Some forced \<Rightarrow> forced
      | None \<Rightarrow>
         (case fst (findPreferredDevice outputDesc STRATEGY_NONE (mAvailableOutputDevices st)) of
            Some deviceDesc \<Rightarrow> deviceType deviceDesc
          | None \<Rightarrow>
              if isStrategyActive E outputDesc STRATEGY_ENFORCED_AUDIBLE \<and>
                 getForceUse E AUDIO_POLICY_FORCE_FOR_SYSTEM = AUDIO_POLICY_FORCE_SYSTEM_ENFORCED
              then getDeviceForStrategy E st STRATEGY_ENFORCED_AUDIBLE fromCache
              else if isInCall E \<or> isStrategyActiveOnSameModule E st outputDesc STRATEGY_PHONE
              then getDeviceForStrategy E st STRATEGY_PHONE fromCache
              else if isStrategyActiveOnSameModule E st outputDesc STRATEGY_SONIFICATION
              then getDeviceForStrategy E st STRATEGY_SONIFICATION fromCache
              else if isStrategyActive E outputDesc STRATEGY_ENFORCED_AUDIBLE
              then getDeviceForStrategy E st STRATEGY_ENFORCED_AUDIBLE fromCache
              else if isStrategyActive E outputDesc STRATEGY_ACCESSIBILITY
              then getDeviceForStrategy E st STRATEGY_ACCESSIBILITY fromCache
              else if isStrategyActive E outputDesc STRATEGY_SONIFICATION_RESPECTFUL
              then getDeviceForStrategy E st STRATEGY_SONIFICATION_RESPECTFUL fromCache
              else if isStrategyActive E outputDesc STRATEGY_MEDIA
              then getDeviceForStrategy E st STRATEGY_MEDIA fromCache
              else if isStrategyActive E outputDesc STRATEGY_DTMF
              then getDeviceForStrategy E st STRATEGY_DTMF fromCache
              else if isStrategyActive E outputDesc STRATEGY_TRANSMITTED_THROUGH_SPEAKER
              then getDeviceForStrategy E st STRATEGY_TRANSMITTED_THROUGH_SPEAKER fromCache
              else if isStrategyActive E outputDesc STRATEGY_REROUTING
              then getDeviceForStrategy E st STRATEGY_REROUTING fromCache
              else AUDIO_DEVICE_NONE))"

section \<open>Rescaling a volume index\<close>

text \<open>
  \<^verbatim>\<open>rescaleVolumeIndex\<close> computes in C \<^verbatim>\<open>float\<close>.  A \<^verbatim>\<open>float\<close> value is
  modelled by the rational number it denotes, and \<open>float32\<close> rounds a rational to the
  nearest number with a 24-bit significand, ties to the even significand, which is how
  IEEE 754 binary32 rounds the result of every conversion and arithmetic operation.
  \<open>float_exponent x\<close> is the exponent \<open>e\<close> with \<open>2 powi e \<le> x < 2 powi (e + 1)\<close>.  The exponent is
  not bounded: the operands of \<^verbatim>\<open>rescaleVolumeIndex\<close> are conversions of 32-bit integers,
  their differences, one product and one quotient by a non-zero integer, which all lie
  in the normal range of binary32, where no overflow and no gradual underflow occurs.
\<close>

definition float_exponent :: "rat \<Rightarrow> int" where
  "float_exponent x =
     (if 1 \<le> x then bitlen \<lfloor>x\<rfloor> - 1
      else let k = bitlen \<lfloor>1 / x\<rfloor> - 1
           in if x * 2 ^ nat k = 1 then - k else - k - 1)"

definition round_half_even :: "rat \<Rightarrow> int" where
  "round_half_even y =
     (let n = \<lfloor>y\<rfloor>; r = y - of_int n
      in if r < 1 / 2 then n
         else if 1 / 2 < r then n + 1
         else if even n then n else n + 1)"

definition float32 :: "rat \<Rightarrow> rat" where
  "float32 x =
     (if x = 0 then 0
      else let u = 2 powi (float_exponent \<bar>x\<bar> - 23)
           in sgn x * of_int (round_half_even (\<bar>x\<bar> / u)) * u)"

text \<open>
  The conversion \<^verbatim>\<open>(int)\<close> of a \<^verbatim>\<open>float\<close> truncates toward zero; its behaviour is
  undefined when the truncated value is not an \<^verbatim>\<open>int\<close>, which is the result \<open>None\<close>.
\<close>

definition float_to_int :: "rat \<Rightarrow> int option" where
  "float_to_int x =
     (let t = (if 0 \<le> x then \<lfloor>x\<rfloor> else \<lceil>x\<rceil>)
      in if - (2 ^ 31) \<le> t \<and> t < 2 ^ 31 then Some t else None)"

text \<open>
  \<^verbatim>\<open>AudioPolicyManager::rescaleVolumeIndex\<close>.  In the returned expression
  \<^verbatim>\<open>srcIndex\<close> is converted to \<^verbatim>\<open>float\<close> for the subtraction, and each of the two
  subtractions, the product, the quotient and the sum is rounded to \<^verbatim>\<open>float\<close>.  When
  the two bounds of the source stream are equal the quotient is an infinity or a NaN, whose
  conversion to \<^verbatim>\<open>int\<close> is undefined: the result is \<open>None\<close>.
\<close>

definition rescaleVolumeIndex ::
  "Collaborators \<Rightarrow> int \<Rightarrow> audio_stream_type_t \<Rightarrow> audio_stream_type_t \<Rightarrow> int option" where
  "rescaleVolumeIndex E srcIndex srcStream dstStream =
     (if srcStream = dstStream then Some srcIndex
      else
        let minSrc = float32 (of_int (getVolumeIndexMin E srcStream));
            maxSrc = float32 (of_int (getVolumeIndexMax E srcStream));
            minDst = float32 (of_int (getVolumeIndexMin E dstStream));
            maxDst = float32 (of_int (getVolumeIndexMax E dstStream));
            numerator = float32 (float32 (float32 (of_int srcIndex) - minSrc) *
                                 float32 (maxDst - minDst));
            denominator = float32 (maxSrc - minSrc)
        in if denominator = 0 then None
           else float_to_int (float32 (minDst + float32 (numerator / denominator))))"

section \<open>Volume and mute\<close>

text \<open>
  \<^verbatim>\<open>checkAndSetVolume\<close> returns its status and the new state.  The call of
  \<^verbatim>\<open>outputDesc->setVolume\<close> is recorded as \<open>SetVolume\<close>.
\<close>

definition checkAndSetVolume ::
  "Collaborators \<Rightarrow> audio_stream_type_t \<Rightarrow> int \<Rightarrow> audio_io_handle_t \<Rightarrow> audio_devices_t \<Rightarrow>
   uint32_t \<Rightarrow> bool \<Rightarrow> AudioPolicyManager \<Rightarrow> status_t \<times> AudioPolicyManager" where
  "checkAndSetVolume E stream index out device delayMs force st =
     (let outputDesc = outputs st out in
      if mMuteCount outputDesc stream \<noteq> 0 then (NO_ERROR, st)
      else
        let forceUseForComm = getForceUse E AUDIO_POLICY_FORCE_FOR_COMMUNICATION in
        if (stream = AUDIO_STREAM_VOICE_CALL \<and> forceUseForComm = AUDIO_POLICY_FORCE_BT_SCO) \<or>
           (stream = AUDIO_STREAM_BLUETOOTH_SCO \<and> forceUseForComm \<noteq> AUDIO_POLICY_FORCE_BT_SCO)
        then (INVALID_OPERATION, st)
        else
          let device1 = (if device = AUDIO_DEVICE_NONE then device_of st out else device);
              computed = computeVolume E st stream index device1;
              volumeDb = (if isFixedVolume outputDesc device1 \<or>
                             ((stream = AUDIO_STREAM_VOICE_CALL \<or> stream = AUDIO_STREAM_BLUETOOTH_SCO) \<and>
                              device1 AND AUDIO_DEVICE_OUT_ALL_SCO \<noteq> 0)
                          then 0 else computed);
              st1 = emit (SetVolume out volumeDb stream device1 delayMs force) st
          in if stream = AUDIO_STREAM_VOICE_CALL \<or> stream = AUDIO_STREAM_BLUETOOTH_SCO
             then
               let voiceVolume = (if stream = AUDIO_STREAM_VOICE_CALL
                                  then real_of_int index / real_of_int (getVolumeIndexMax E stream)
                                  else 1)
               in if voiceVolume \<noteq> mLastVoiceVolume st1
                  then (NO_ERROR, (emit (SetVoiceVolume voiceVolume delayMs) st1)\<lparr>mLastVoiceVolume := voiceVolume\<rparr>)
                  else (NO_ERROR, st1)
             else (NO_ERROR, st1))"

definition applyStreamVolumes ::
  "Collaborators \<Rightarrow> audio_io_handle_t \<Rightarrow> audio_devices_t \<Rightarrow> uint32_t \<Rightarrow> bool \<Rightarrow>
   AudioPolicyManager \<Rightarrow> AudioPolicyManager" where
  "applyStreamVolumes E out device delayMs force st =
     foldl (\<lambda>s stream. snd (checkAndSetVolume E stream (getVolumeIndex E stream device) out device
                                delayMs force s))
       st policy_streams"

definition setMuteCount ::
  "audio_io_handle_t \<Rightarrow> audio_stream_type_t \<Rightarrow> int \<Rightarrow> AudioPolicyManager \<Rightarrow> AudioPolicyManager" where
  "setMuteCount out stream n st =
     updOutput out (\<lambda>d. d\<lparr>mMuteCount := (mMuteCount d)(stream := n)\<rparr>) st"

text \<open>
  \<^verbatim>\<open>setStreamMute\<close>.  The two calls of \<^verbatim>\<open>checkAndSetVolume\<close> leave the argument
  \<^verbatim>\<open>force\<close> at its default, false.
\<close>

definition setStreamMute ::
  "Collaborators \<Rightarrow> audio_stream_type_t \<Rightarrow> bool \<Rightarrow> audio_io_handle_t \<Rightarrow> uint32_t \<Rightarrow>
   audio_devices_t \<Rightarrow> AudioPolicyManager \<Rightarrow> AudioPolicyManager" where
  "setStreamMute E stream on out delayMs device st =
     (let device1 = (if device = AUDIO_DEVICE_NONE then device_of st out else device) in
      if on then
        let st1 = (if mMuteCount (outputs st out) stream = 0 then
                     (if canBeMuted E stream \<and>
                         (stream \<noteq> AUDIO_STREAM_ENFORCED_AUDIBLE \<or>
                          getForceUse E AUDIO_POLICY_FORCE_FOR_SYSTEM = AUDIO_POLICY_FORCE_NONE)
                      then snd (checkAndSetVolume E stream 0 out device1 delayMs False st)
                      else st)
                   else st)
        in setMuteCount out stream (mMuteCount (outputs st1 out) stream + 1) st1
      else
        if mMuteCount (outputs st out) stream = 0 then st
        else
          let st1 = setMuteCount out stream (mMuteCount (outputs st out) stream - 1) st
          in if mMuteCount (outputs st1 out) stream = 0
             then snd (checkAndSetVolume E stream (getVolumeIndex E stream device1) out device1
                         delayMs False st1)
             else st1)"

definition setStrategyMute ::
  "Collaborators \<Rightarrow> routing_strategy \<Rightarrow> bool \<Rightarrow> audio_io_handle_t \<Rightarrow> uint32_t \<Rightarrow>
   audio_devices_t \<Rightarrow> AudioPolicyManager \<Rightarrow> AudioPolicyManager" where
  "setStrategyMute E strategy on out delayMs device st =
     foldl (\<lambda>s stream. if getStrategy E stream = strategy
                        then setStreamMute E stream on out delayMs device s else s)
       st policy_streams"

section \<open>Patch lifecycle\<close>

text \<open>
  \<^verbatim>\<open>mAudioPatches.indexOfKey(key)\<close> followed by \<^verbatim>\<open>valueAt(index)\<close>: the result
  is \<open>None\<close> for a negative index and otherwise the key with the record stored under it.
\<close>

definition indexOfKey ::
  "(audio_patch_handle_t \<rightharpoonup> AudioPatch) \<Rightarrow> audio_patch_handle_t \<Rightarrow>
   (audio_patch_handle_t \<times> AudioPatch) option" where
  "indexOfKey patches key = map_option (Pair key) (patches key)"

text \<open>
  Modelled from the spec: the constructor of \<^verbatim>\<open>AudioPatch\<close> and the collection
  methods \<^verbatim>\<open>addAudioPatch\<close> and \<^verbatim>\<open>removeAudioPatch\<close> are declared outside the
  file.  A patch has a requesting identity, an opaque transport-level handle and a local
  handle; a new patch takes its local handle from a counter and has no transport handle
  yet; adding records the patch under its handle and removing deletes the record.
\<close>

definition newAudioPatch :: "audio_patch \<Rightarrow> uid_t \<Rightarrow> AudioPolicyManager \<Rightarrow> AudioPatch \<times> AudioPolicyManager" where
  "newAudioPatch patch uid st =
     (\<lparr>mHandle = mNextUniqueId st, mPatch = patch, mUid = uid,
       mAfPatchHandle = AUDIO_PATCH_HANDLE_NONE\<rparr>,
      st\<lparr>mNextUniqueId := mNextUniqueId st + 1\<rparr>)"

definition addAudioPatch :: "audio_patch_handle_t \<Rightarrow> AudioPatch \<Rightarrow> AudioPolicyManager \<Rightarrow> AudioPolicyManager" where
  "addAudioPatch handle patchDesc st = st\<lparr>mAudioPatches := (mAudioPatches st)(handle \<mapsto> patchDesc)\<rparr>"

definition removeAudioPatch :: "audio_patch_handle_t \<Rightarrow> AudioPolicyManager \<Rightarrow> AudioPolicyManager" where
  "removeAudioPatch handle st = st\<lparr>mAudioPatches := (mAudioPatches st)(handle := None)\<rparr>"

definition nextAudioPortGeneration :: "AudioPolicyManager \<Rightarrow> AudioPolicyManager" where
  "nextAudioPortGeneration st = st\<lparr>mAudioPortGeneration := mAudioPortGeneration st + 1\<rparr>"

text \<open>
  \<^verbatim>\<open>installPatch\<close> with an index.  The argument \<open>patchHandle\<close> is \<open>None\<close> for a
  null pointer and otherwise the value pointed to; the second component of the result is
  the value after the call.  An existing record is a shared object that the source
  updates in place: the model writes the updated record back under the key it was found
  at.  The third component is what \<^verbatim>\<open>*patchDescPtr\<close> receives.
\<close>

definition installPatch_at ::
  "Collaborators \<Rightarrow> (audio_patch_handle_t \<times> AudioPatch) option \<Rightarrow> audio_patch_handle_t option \<Rightarrow>
   audio_patch \<Rightarrow> uint32_t \<Rightarrow> uid_t \<Rightarrow> AudioPolicyManager \<Rightarrow>
   status_t \<times> audio_patch_handle_t option \<times> AudioPatch option \<times> AudioPolicyManager" where
  "installPatch_at E index patchHandle patch delayMs uid st =
     (let afPatchHandle0 = (case index of
                              Some (key, patchDesc) \<Rightarrow> mAfPatchHandle patchDesc
                            | None \<Rightarrow> AUDIO_PATCH_HANDLE_NONE);
          status = fst (createAudioPatch E patch afPatchHandle0 delayMs);
          afPatchHandle = snd (createAudioPatch E patch afPatchHandle0 delayMs);
          st1 = emit (CreateAudioPatch patch afPatchHandle0 delayMs) st
      in if status = NO_ERROR then
           (case index of
              None \<Rightarrow>
                (let created = newAudioPatch patch uid st1;
                     patchDesc = (fst created)\<lparr>mAfPatchHandle := afPatchHandle\<rparr>;
                     st2 = addAudioPatch (mHandle patchDesc) patchDesc (snd created)
                 in (status,
                     (case patchHandle of None \<Rightarrow> None | Some _ \<Rightarrow> Some (mHandle patchDesc)),
                     Some patchDesc,
                     emit OnAudioPatchListUpdate (nextAudioPortGeneration st2)))
            | Some (key, found) \<Rightarrow>
                (let patchDesc = found\<lparr>mPatch := patch, mAfPatchHandle := afPatchHandle\<rparr>;
                     st2 = st1\<lparr>mAudioPatches := (mAudioPatches st1)(key \<mapsto> patchDesc)\<rparr>
                 in (status,
                     (case patchHandle of None \<Rightarrow> None | Some _ \<Rightarrow> Some (mHandle patchDesc)),
                     Some patchDesc,
                     emit OnAudioPatchListUpdate (nextAudioPortGeneration st2))))
         else (status, patchHandle, map_option snd index, st1))"

text \<open>
  The descriptor overload takes an \<^verbatim>\<open>AudioIODescriptorInterface\<close>: an output or an
  input descriptor.
\<close>

datatype io_descriptor = OutputDescriptor audio_io_handle_t | InputDescriptor audio_io_handle_t

fun getPatchHandle :: "AudioPolicyManager \<Rightarrow> io_descriptor \<Rightarrow> audio_patch_handle_t" where
  "getPatchHandle st (OutputDescriptor out) = mPatchHandle (outputs st out)"
| "getPatchHandle st (InputDescriptor inp) = inPatchHandle (inputs st inp)"

fun setPatchHandle :: "io_descriptor \<Rightarrow> audio_patch_handle_t \<Rightarrow> AudioPolicyManager \<Rightarrow> AudioPolicyManager" where
  "setPatchHandle (OutputDescriptor out) handle st = updOutput out (\<lambda>d. d\<lparr>mPatchHandle := handle\<rparr>) st"
| "setPatchHandle (InputDescriptor inp) handle st = updInput inp (\<lambda>d. d\<lparr>inPatchHandle := handle\<rparr>) st"

definition installPatch ::
  "Collaborators \<Rightarrow> audio_patch_handle_t option \<Rightarrow> io_descriptor \<Rightarrow> audio_patch \<Rightarrow> uint32_t \<Rightarrow>
   AudioPolicyManager \<Rightarrow> status_t \<times> audio_patch_handle_t option \<times> AudioPolicyManager" where
  "installPatch E patchHandle ioDescriptor patch delayMs st =
     (let key = (case patchHandle of
                   Some h \<Rightarrow> if h \<noteq> AUDIO_PATCH_HANDLE_NONE then h else getPatchHandle st ioDescriptor
                 | None \<Rightarrow> getPatchHandle st ioDescriptor);
          index = indexOfKey (mAudioPatches st) key
      in case installPatch_at E index patchHandle patch delayMs (mUidCached st) st of
           (status, patchHandle1, patchDesc, st1) \<Rightarrow>
             if status = NO_ERROR
             then (case patchDesc of
                     Some pd \<Rightarrow> (status, patchHandle1, setPatchHandle ioDescriptor (mHandle pd) st1)
                   | None \<Rightarrow> (status, patchHandle1, st1))
             else (status, patchHandle1, st1))"

text \<open>
  \<^verbatim>\<open>resetOutputDevice\<close> and \<^verbatim>\<open>resetInputDevice\<close> share one body over the two kinds
  of descriptor; the input variant passes the delay 0.
\<close>

definition resetDevice ::
  "Collaborators \<Rightarrow> io_descriptor \<Rightarrow> uint32_t \<Rightarrow> audio_patch_handle_t option \<Rightarrow>
   AudioPolicyManager \<Rightarrow> status_t \<times> AudioPolicyManager" where
  "resetDevice E ioDescriptor delayMs patchHandle st =
     (let index = (case patchHandle of
                     Some h \<Rightarrow> indexOfKey (mAudioPatches st) h
                   | None \<Rightarrow> indexOfKey (mAudioPatches st) (getPatchHandle st ioDescriptor))
      in case index of
           None \<Rightarrow> (INVALID_OPERATION, st)
         | Some (key, patchDesc) \<Rightarrow>
             (let status = releaseAudioPatch E (mAfPatchHandle patchDesc) delayMs;
                  st1 = emit (ReleaseAudioPatch (mAfPatchHandle patchDesc) delayMs) st;
                  st2 = setPatchHandle ioDescriptor AUDIO_PATCH_HANDLE_NONE st1;
                  st3 = removeAudioPatch (mHandle patchDesc) st2;
                  st4 = nextAudioPortGeneration st3
              in (status, emit OnAudioPatchListUpdate st4)))"

definition resetOutputDevice ::
  "Collaborators \<Rightarrow> audio_io_handle_t \<Rightarrow> uint32_t \<Rightarrow> audio_patch_handle_t option \<Rightarrow>
   AudioPolicyManager \<Rightarrow> status_t \<times> AudioPolicyManager" where
  "resetOutputDevice E out delayMs patchHandle st =
     resetDevice E (OutputDescriptor out) delayMs patchHandle st"

definition resetInputDevice ::
  "Collaborators \<Rightarrow> audio_io_handle_t \<Rightarrow> audio_patch_handle_t option \<Rightarrow>
   AudioPolicyManager \<Rightarrow> status_t \<times> AudioPolicyManager" where
  "resetInputDevice E inp patchHandle st =
     resetDevice E (InputDescriptor inp) 0 patchHandle st"

section \<open>Muting across a device change\<close>

text \<open>
  \<^verbatim>\<open>checkDeviceMuteStrategies\<close>.  The loop variables are the state and
  \<^verbatim>\<open>muteWaitMs\<close>.  \<open>muteOutputs_step\<close> is the body of the loop over
  \<^verbatim>\<open>mOutputs\<close>, \<open>muteStrategies_step\<close> the body of the first loop over the strategies,
  \<open>tempMute_step\<close> the body of the second.  The calls of \<^verbatim>\<open>setStrategyMute\<close> that
  give no device leave it at its default, \<^verbatim>\<open>AUDIO_DEVICE_NONE\<close>.
\<close>

definition muteOutputs_step ::
  "Collaborators \<Rightarrow> audio_io_handle_t \<Rightarrow> routing_strategy \<Rightarrow> bool \<Rightarrow> uint32_t \<Rightarrow>
   AudioPolicyManager \<times> uint32_t \<Rightarrow> audio_io_handle_t \<Rightarrow> AudioPolicyManager \<times> uint32_t" where
  "muteOutputs_step E out i mute delayMs acc j =
     (let st = fst acc; muteWaitMs = snd acc in
      if supportedDevices (outputs st j) AND supportedDevices (outputs st out) = AUDIO_DEVICE_NONE
      then (st, muteWaitMs)
      else
        let st1 = setStrategyMute E i mute j (if mute then 0 else delayMs) AUDIO_DEVICE_NONE st in
        if isStrategyActive E (outputs st1 j) i \<and> mute \<and> muteWaitMs < latency (outputs st1 j) * 2
        then (st1, latency (outputs st1 j) * 2)
        else (st1, muteWaitMs))"

definition setStrategyMutedByDevice ::
  "audio_io_handle_t \<Rightarrow> routing_strategy \<Rightarrow> bool \<Rightarrow> AudioPolicyManager \<Rightarrow> AudioPolicyManager" where
  "setStrategyMutedByDevice out i b st =
     updOutput out (\<lambda>d. d\<lparr>mStrategyMutedByDevice := (mStrategyMutedByDevice d)(i := b)\<rparr>) st"

definition muteStrategies_step ::
  "Collaborators \<Rightarrow> audio_io_handle_t \<Rightarrow> audio_devices_t \<Rightarrow> bool \<Rightarrow> uint32_t \<Rightarrow>
   AudioPolicyManager \<times> uint32_t \<Rightarrow> routing_strategy \<Rightarrow> AudioPolicyManager \<times> uint32_t" where
  "muteStrategies_step E out device shouldMute delayMs acc i =
     (let st = fst acc; muteWaitMs = snd acc;
          curDevice = getDeviceForStrategy E st i False AND supportedDevices (outputs st out);
          mute = (shouldMute \<and> curDevice AND device \<noteq> 0 \<and> curDevice \<noteq> device)
      in if mute \<and> \<not> mStrategyMutedByDevice (outputs st out) i
         then foldl (muteOutputs_step E out i mute delayMs)
                (setStrategyMutedByDevice out i True st, muteWaitMs) (mOutputs st)
         else if \<not> mute \<and> mStrategyMutedByDevice (outputs st out) i
         then foldl (muteOutputs_step E out i mute delayMs)
                (setStrategyMutedByDevice out i False st, muteWaitMs) (mOutputs st)
         else (st, muteWaitMs))"

definition tempMute_step ::
  "Collaborators \<Rightarrow> audio_io_handle_t \<Rightarrow> audio_devices_t \<Rightarrow> uint32_t \<Rightarrow> uint32_t \<Rightarrow>
   AudioPolicyManager \<Rightarrow> routing_strategy \<Rightarrow> AudioPolicyManager" where
  "tempMute_step E out device delayMs tempMuteDurationMs st i =
     (if isStrategyActive E (outputs st out) i
      then setStrategyMute E i False out (delayMs + tempMuteDurationMs) device
             (setStrategyMute E i True out delayMs AUDIO_DEVICE_NONE st)
      else st)"

definition checkDeviceMuteStrategies ::
  "Collaborators \<Rightarrow> audio_io_handle_t \<Rightarrow> audio_devices_t \<Rightarrow> uint32_t \<Rightarrow>
   AudioPolicyManager \<Rightarrow> uint32_t \<times> AudioPolicyManager" where
  "checkDeviceMuteStrategies E out prevDevice delayMs st =
     (if isDuplicated (outputs st out) then (0, st)
      else
        let device = device_of st out;
            shouldMute = (isActive (outputs st out) \<and> popcount device \<ge> 2);
            acc1 = foldl (muteStrategies_step E out device shouldMute delayMs) (st, 0) all_strategies;
            st1 = fst acc1;
            muteWaitMs1 = snd acc1;
            acc2 = (if isActive (outputs st1 out) \<and> device \<noteq> prevDevice
                    then
                      let tempMuteWaitMs = latency (outputs st1 out) * 2;
                          tempMuteDurationMs = latency (outputs st1 out) * 4
                      in (foldl (tempMute_step E out device delayMs tempMuteDurationMs) st1 all_strategies,
                          if muteWaitMs1 < tempMuteWaitMs then tempMuteWaitMs else muteWaitMs1)
                    else (st1, muteWaitMs1));
            st2 = fst acc2;
            muteWaitMs2 = snd acc2
        in if muteWaitMs2 > delayMs
           then (muteWaitMs2 - delayMs, emit (Usleep ((muteWaitMs2 - delayMs) * 1000)) st2)
           else (0, st2))"

section \<open>Setting the device of an output\<close>

text \<open>
  \<open>setOutputDevice_single\<close> is the body of \<^verbatim>\<open>setOutputDevice\<close> below the test for a
  duplicated output.  The result is the mute wait, the value of \<^verbatim>\<open>*patchHandle\<close>
  after the call (\<open>None\<close> for a null pointer) and the new state.  A null or empty
  \<^verbatim>\<open>address\<close> is \<open>None\<close> or the empty string.  A patch has at most
  \<^verbatim>\<open>AUDIO_PATCH_PORTS_MAX\<close> = 16 sinks.
\<close>

definition informInputs ::
  "Collaborators \<Rightarrow> audio_devices_t \<Rightarrow> uint32_t \<Rightarrow> AudioPolicyManager \<Rightarrow> AudioPolicyManager" where
  "informInputs E device delayMs st =
     foldl (\<lambda>s inp. if \<not> is_virtual_input_device E (inDevice (inputs s inp))
                     then emit (SetParameters inp device delayMs) s else s)
       st (mInputs st)"



section \<open>Starting a capture client\<close>

datatype concurrency_type =
    API_INPUT_CONCURRENCY_CALL
  | API_INPUT_CONCURRENCY_CAPTURE
  | API_INPUT_CONCURRENCY_HOTWORD
  | API_INPUT_CONCURRENCY_PREEMPT

text \<open>
  Modelled from the spec: the accessors of the input collection and of the input
  descriptor are declared outside the file.  A client is owned by exactly one stream
  descriptor; each attached capture client is active or inactive and silenced or not:
  \<open>getInputForClient\<close> is the first registered input that holds a client with the
  port identifier (together with that client), an input is active when one of its
  clients is, \<open>getActiveInputs\<close> lists the active registered inputs,
  \<open>activeClients\<close> is \<^verbatim>\<open>clientsList(true)\<close>, \<open>activeHotwordClients\<close> is
  \<^verbatim>\<open>clientsList(true, AUDIO_SOURCE_HOTWORD)\<close>, and \<open>hasPreemptedSession\<close> looks the
  session up among the preempted sessions of the input.
\<close>

definition getClient :: "AudioInputDescriptor \<Rightarrow> audio_port_handle_t \<Rightarrow> RecordClientDescriptor option" where
  "getClient inputDesc portId = find (\<lambda>c. recPortId c = portId) (recordClients inputDesc)"

definition getInputForClient ::
  "AudioPolicyManager \<Rightarrow> audio_port_handle_t \<Rightarrow> (audio_io_handle_t \<times> RecordClientDescriptor) option" where
  "getInputForClient st portId =
     (case find (\<lambda>inp. getClient (inputs st inp) portId \<noteq> None) (mInputs st) of
        None \<Rightarrow> None
      | Some inp \<Rightarrow> map_option (Pair inp) (getClient (inputs st inp) portId))"

definition activeClients :: "AudioInputDescriptor \<Rightarrow> RecordClientDescriptor list" where
  "activeClients inputDesc = filter recActive (recordClients inputDesc)"

definition activeHotwordClients :: "AudioInputDescriptor \<Rightarrow> RecordClientDescriptor list" where
  "activeHotwordClients inputDesc =
     filter (\<lambda>c. recActive c \<and> recSource c = AUDIO_SOURCE_HOTWORD) (recordClients inputDesc)"

definition getActiveInputs :: "AudioPolicyManager \<Rightarrow> audio_io_handle_t list" where
  "getActiveInputs st = filter (\<lambda>inp. activeClients (inputs st inp) \<noteq> []) (mInputs st)"

definition hasPreemptedSession :: "AudioInputDescriptor \<Rightarrow> audio_session_t \<Rightarrow> bool" where
  "hasPreemptedSession inputDesc session \<longleftrightarrow> session \<in> set (inPreemptedSessions inputDesc)"

text \<open>
  The loop that stops silenced clients when the new client is not silenced.  The source
  replaces \<^verbatim>\<open>activeInputs\<close> inside the loop that walks it; the model walks the inputs
  that were active when the loop started, and the list the later loops see is
  \<open>getActiveInputs\<close> of the state the loop leaves.
\<close>

definition stopSilencedClients ::
  "Collaborators \<Rightarrow> audio_io_handle_t \<Rightarrow> AudioPolicyManager \<Rightarrow> AudioPolicyManager" where
  "stopSilencedClients E inp st =
     foldl (\<lambda>s activeDesc.
              if inPortFlags (inputs s activeDesc) AND AUDIO_INPUT_FLAG_MMAP_NOIRQ \<noteq> 0 \<and>
                 inId (inputs s activeDesc) = inId (inputs s inp)
              then s
              else foldl (\<lambda>s' activeClient.
                            if recSilenced activeClient then closeClient E (recPortId activeClient) s'
                            else s')
                     s (activeClients (inputs s activeDesc)))
       st (getActiveInputs st)"

text \<open>
  The concurrency loop of \<^verbatim>\<open>startInput\<close>: \<open>None\<close> when the loop runs to its end,
  and otherwise the flag set before \<^verbatim>\<open>return INVALID_OPERATION\<close>.
\<close>

fun captureConflict ::
  "Collaborators \<Rightarrow> RecordClientDescriptor \<Rightarrow> AudioInputDescriptor \<Rightarrow>
   AudioInputDescriptor list \<Rightarrow> concurrency_type option" where
  "captureConflict E client inputDesc [] = None"
| "captureConflict E client inputDesc (activeDesc # rest) =
     (if recFlags client AND AUDIO_INPUT_FLAG_MMAP_NOIRQ \<noteq> 0 \<and> inId activeDesc = inId inputDesc
      then captureConflict E client inputDesc rest
      else
        if recSource client = AUDIO_SOURCE_HOTWORD then
          (if inputSource E activeDesc = AUDIO_SOURCE_HOTWORD then
             (if hasPreemptedSession activeDesc (recSession client)
              then Some API_INPUT_CONCURRENCY_HOTWORD
              else captureConflict E client inputDesc rest)
           else Some API_INPUT_CONCURRENCY_CAPTURE)
        else
          (if inputSource E activeDesc \<noteq> AUDIO_SOURCE_HOTWORD
           then Some API_INPUT_CONCURRENCY_CAPTURE
           else captureConflict E client inputDesc rest))"

text \<open>
  The loop that preempts the active hotword clients.  \<^verbatim>\<open>sessions\<close> is a sorted
  vector without duplicates.
\<close>

definition addSession :: "audio_session_t \<Rightarrow> audio_session_t list \<Rightarrow> audio_session_t list" where
  "addSession session sessions = (if session \<in> set sessions then sessions else insort session sessions)"

definition preemptHotword_step ::
  "Collaborators \<Rightarrow> audio_io_handle_t \<Rightarrow> bool \<Rightarrow>
   concurrency_type set \<times> AudioPolicyManager \<Rightarrow> audio_io_handle_t \<Rightarrow>
   concurrency_type set \<times> AudioPolicyManager" where
  "preemptHotword_step E inp allowConcurrentWithSoundTrigger acc activeDesc =
     (let concurrency = fst acc; st = snd acc in
      if allowConcurrentWithSoundTrigger \<and> inIsSoundTrigger (inputs st activeDesc)
      then (concurrency, st)
      else
        let hotwordClients = activeHotwordClients (inputs st activeDesc) in
        if hotwordClients \<noteq> [] then
          let sessions = foldl (\<lambda>ss c. addSession (recSession c) ss)
                           (inPreemptedSessions (inputs st activeDesc)) hotwordClients;
              st1 = foldl (\<lambda>s c. closeClient E (recPortId c) s) st hotwordClients
          in (insert API_INPUT_CONCURRENCY_PREEMPT concurrency,
              updInput inp (\<lambda>d. d\<lparr>inPreemptedSessions := sessions\<rparr>) st1)
        else (concurrency, st))"

definition setClientActive ::
  "audio_io_handle_t \<Rightarrow> audio_port_handle_t \<Rightarrow> bool \<Rightarrow> bool \<Rightarrow> AudioPolicyManager \<Rightarrow> AudioPolicyManager" where
  "setClientActive inp portId silenced active st =
     updInput inp
       (\<lambda>d. d\<lparr>recordClients :=
                 map (\<lambda>c. if recPortId c = portId then c\<lparr>recSilenced := silenced, recActive := active\<rparr> else c)
                   (recordClients d)\<rparr>) st"

text \<open>
  \<^verbatim>\<open>startInput\<close> from its entry to the activation of the client.  \<open>Inl\<close> is an
  early return: the status, the value left in \<^verbatim>\<open>*concurrency\<close> and the state.
  \<open>Inr\<close> is the state in which \<^verbatim>\<open>setSilenced\<close> and \<^verbatim>\<open>setClientActive(client, true)\<close>
  have just run, with the value of \<^verbatim>\<open>*concurrency\<close>; the device selection and the
  start of the input that follow are not embedded.  The session, flags and source of the
  client do not change after it is created, so they are read once.
\<close>

definition startInput ::
  "Collaborators \<Rightarrow> audio_port_handle_t \<Rightarrow> bool \<Rightarrow> AudioPolicyManager \<Rightarrow>
   (status_t \<times> concurrency_type set \<times> AudioPolicyManager) + (concurrency_type set \<times> AudioPolicyManager)" where
  "startInput E portId silenced st =
     (case getInputForClient st portId of
        None \<Rightarrow> Inl (BAD_VALUE, {}, st)
      | Some (inp, client) \<Rightarrow>
          if recActive client then Inl (INVALID_OPERATION, {}, st)
          else if \<not> is_virtual_input_device E (inDevice (inputs st inp)) then
            (if mCallTxPatchModule st = Some (inModuleHandle (inputs st inp))
             then Inl (INVALID_OPERATION, {API_INPUT_CONCURRENCY_CALL}, st)
             else
               let st1 = (if \<not> silenced then stopSilencedClients E inp st else st);
                   activeInputs = getActiveInputs st1
               in case captureConflict E client (inputs st1 inp) (map (inputs st1) activeInputs) of
                    Some flag \<Rightarrow> Inl (INVALID_OPERATION, {flag}, st1)
                  | None \<Rightarrow>
                      let allowConcurrentWithSoundTrigger =
                            (if inIsSoundTrigger (inputs st1 inp)
                             then soundTriggerSupportsConcurrentCapture E else False);
                          acc = foldl (preemptHotword_step E inp allowConcurrentWithSoundTrigger)
                                  ({}, st1) activeInputs
                      in Inr (fst acc, setClientActive inp portId silenced True (snd acc)))
          else Inr ({}, setClientActive inp portId silenced True st))"

section \<open>Notions used to state the properties\<close>

subsection \<open>Output selection\<close>

text \<open>
  The candidates that \<^verbatim>\<open>selectOutput\<close> considers, the number of requested flags a
  candidate's profile shares, the largest such number, the scan for the closest format
  (each later candidate replaces the choice when \<^verbatim>\<open>isBetterFormatMatch\<close> prefers its
  format; no scan when no format is requested), and the four choices in their order of
  priority.  A choice is a handle paired with its format; \<^verbatim>\<open>AUDIO_IO_HANDLE_NONE\<close>
  stands for no choice.
\<close>

definition considered ::
  "Collaborators \<Rightarrow> AudioPolicyManager \<Rightarrow> audio_format_t \<Rightarrow>
   audio_io_handle_t \<Rightarrow> bool" where
  "considered E st format h \<longleftrightarrow>
     \<not> isDuplicated (outputs st h) \<and> mFlags (outputs st h) AND AUDIO_OUTPUT_FLAG_DIRECT = 0 \<and>
     (format = AUDIO_FORMAT_INVALID \<or> audio_is_linear_pcm E format)"

definition commonFlagsOf ::
  "AudioPolicyManager \<Rightarrow> audio_output_flags_t \<Rightarrow> audio_io_handle_t \<Rightarrow> nat" where
  "commonFlagsOf st flags h = popcount (profileFlags (outputs st h) AND flags)"

definition mostCommonFlags ::
  "AudioPolicyManager \<Rightarrow> audio_output_flags_t \<Rightarrow> audio_io_handle_t list \<Rightarrow> nat" where
  "mostCommonFlags st flags hs = foldr max (map (commonFlagsOf st flags) hs) 0"

definition closerFormat ::
  "Collaborators \<Rightarrow> AudioPolicyManager \<Rightarrow> audio_format_t \<Rightarrow>
   audio_io_handle_t \<times> audio_format_t \<Rightarrow> audio_io_handle_t \<Rightarrow> audio_io_handle_t \<times> audio_format_t" where
  "closerFormat E st format best h =
     (if isBetterFormatMatch E (mFormat (outputs st h)) (snd best) format
      then (h, mFormat (outputs st h)) else best)"

definition closestFormat ::
  "Collaborators \<Rightarrow> AudioPolicyManager \<Rightarrow> audio_format_t \<Rightarrow>
   audio_io_handle_t \<times> audio_format_t \<Rightarrow> audio_io_handle_t list \<Rightarrow> audio_io_handle_t \<times> audio_format_t" where
  "closestFormat E st format start hs =
     (if format = AUDIO_FORMAT_INVALID then start
      else foldl (closerFormat E st format) start hs)"

definition bestByFlags ::
  "Collaborators \<Rightarrow> AudioPolicyManager \<Rightarrow> audio_output_flags_t \<Rightarrow>
   audio_format_t \<Rightarrow> audio_io_handle_t list \<Rightarrow> audio_io_handle_t \<times> audio_format_t" where
  "bestByFlags E st flags format cands =
     (let m = mostCommonFlags st flags cands in
      if m = 0 then closestFormat E st format (AUDIO_IO_HANDLE_NONE, AUDIO_FORMAT_INVALID) cands
      else case filter (\<lambda>h. commonFlagsOf st flags h = m) cands of
             [] \<Rightarrow> (AUDIO_IO_HANDLE_NONE, AUDIO_FORMAT_INVALID)
           | h # hs \<Rightarrow> closestFormat E st format (h, mFormat (outputs st h)) hs)"

definition bestByFormat ::
  "Collaborators \<Rightarrow> AudioPolicyManager \<Rightarrow>
   audio_format_t \<Rightarrow> audio_io_handle_t list \<Rightarrow> audio_io_handle_t \<times> audio_format_t" where
  "bestByFormat E st format cands =
     closestFormat E st format (AUDIO_IO_HANDLE_NONE, AUDIO_FORMAT_INVALID) cands"

definition lastPrimary ::
  "AudioPolicyManager \<Rightarrow> audio_io_handle_t list \<Rightarrow> audio_io_handle_t" where
  "lastPrimary st cands =
     (case filter (\<lambda>h. profileFlags (outputs st h) AND AUDIO_OUTPUT_FLAG_PRIMARY \<noteq> 0) (rev cands) of
        [] \<Rightarrow> AUDIO_IO_HANDLE_NONE
      | h # _ \<Rightarrow> h)"

definition select_inv ::
  "Collaborators \<Rightarrow> AudioPolicyManager \<Rightarrow> audio_output_flags_t \<Rightarrow>
   audio_format_t \<Rightarrow> audio_io_handle_t list \<Rightarrow> select_state \<Rightarrow> bool" where
  "select_inv E st flags format cands s \<longleftrightarrow>
     maxCommonFlags s = mostCommonFlags st flags cands \<and>
     outputForFlags s = fst (bestByFlags E st flags format cands) \<and>
     bestFormatForFlags s = snd (bestByFlags E st flags format cands) \<and>
     outputForFormat s = fst (bestByFormat E st format cands) \<and>
     bestFormat s = snd (bestByFormat E st format cands) \<and>
     outputForPrimary s = lastPrimary st cands"

subsection \<open>Sequences of mute requests\<close>

text \<open>
  A run of \<^verbatim>\<open>setStreamMute\<close> calls, and the number of mute requests in a sequence
  that no later unmute request has matched, counted from \<open>n\<close> pending ones: an unmute
  request with nothing pending matches nothing.
\<close>

record mute_request =
  reqStream :: audio_stream_type_t
  reqOn :: bool
  reqOutput :: audio_io_handle_t
  reqDelayMs :: uint32_t
  reqDevice :: audio_devices_t

definition setStreamMutes ::
  "Collaborators \<Rightarrow> mute_request list \<Rightarrow> AudioPolicyManager \<Rightarrow> AudioPolicyManager" where
  "setStreamMutes E reqs st =
     foldl (\<lambda>s r. setStreamMute E (reqStream r) (reqOn r) (reqOutput r) (reqDelayMs r) (reqDevice r) s)
       st reqs"

fun unmatchedMutes :: "nat \<Rightarrow> bool list \<Rightarrow> nat" where
  "unmatchedMutes n [] = n"
| "unmatchedMutes n (True # ons) = unmatchedMutes (Suc n) ons"
| "unmatchedMutes n (False # ons) = unmatchedMutes (n - 1) ons"

definition requestsFor ::
  "audio_io_handle_t \<Rightarrow> audio_stream_type_t \<Rightarrow> mute_request list \<Rightarrow> bool list" where
  "requestsFor out stream reqs =
     map reqOn (filter (\<lambda>r. reqOutput r = out \<and> reqStream r = stream) reqs)"

subsection \<open>Muting\<close>

text \<open>
  The part of an output descriptor that decides routing and that muting, volume and
  patch operations leave alone, and the effect of one \<^verbatim>\<open>setStreamMute\<close> call on a
  mute counter.
\<close>

definition routingOf ::
  "AudioPolicyManager \<Rightarrow> audio_io_handle_t \<Rightarrow>
   audio_devices_t \<times> audio_devices_t \<times> bool \<times> uint32_t \<times> bool \<times> (audio_stream_type_t \<Rightarrow> bool)" where
  "routingOf st h =
     (mDevice (outputs st h), supportedDevices (outputs st h), isDuplicated (outputs st h),
      latency (outputs st h), isActive (outputs st h), isStreamActive (outputs st h))"

definition muteCountStep :: "bool \<Rightarrow> int \<Rightarrow> int" where
  "muteCountStep on c = (if on then c + 1 else if c = 0 then 0 else c - 1)"

subsection \<open>Device selection\<close>

text \<open>
  The order in which \<^verbatim>\<open>getNewOutputDevice\<close> tries the strategies, each with the
  test that selects it: active on the stream itself, active on the stream while the
  force-use for system is "system enforced", active on some output of the same hardware
  module or a call in progress, active on some output of the same hardware module.
  \<open>forcedByPatch\<close> holds when the patch attached to the stream was installed by a
  uid other than the cached one.
\<close>

datatype activity_scope =
    OnStream
  | OnStreamWhenSystemEnforced
  | OnModuleOrInCall
  | OnModule

definition strategy_priority :: "(routing_strategy \<times> activity_scope) list" where
  "strategy_priority =
     [(STRATEGY_ENFORCED_AUDIBLE, OnStreamWhenSystemEnforced),
      (STRATEGY_PHONE, OnModuleOrInCall),
      (STRATEGY_SONIFICATION, OnModule),
      (STRATEGY_ENFORCED_AUDIBLE, OnStream),
      (STRATEGY_ACCESSIBILITY, OnStream),
      (STRATEGY_SONIFICATION_RESPECTFUL, OnStream),
      (STRATEGY_MEDIA, OnStream),
      (STRATEGY_DTMF, OnStream),
      (STRATEGY_TRANSMITTED_THROUGH_SPEAKER, OnStream),
      (STRATEGY_REROUTING, OnStream)]"

fun strategyApplies ::
  "Collaborators \<Rightarrow> AudioPolicyManager \<Rightarrow> audio_io_handle_t \<Rightarrow> routing_strategy \<times> activity_scope \<Rightarrow> bool" where
  "strategyApplies E st out (strategy, OnStream) = isStrategyActive E (outputs st out) strategy"
| "strategyApplies E st out (strategy, OnStreamWhenSystemEnforced) =
     (isStrategyActive E (outputs st out) strategy \<and>
      getForceUse E AUDIO_POLICY_FORCE_FOR_SYSTEM = AUDIO_POLICY_FORCE_SYSTEM_ENFORCED)"
| "strategyApplies E st out (strategy, OnModuleOrInCall) =
     (isInCall E \<or> isStrategyActiveOnSameModule E st (outputs st out) strategy)"
| "strategyApplies E st out (strategy, OnModule) =
     isStrategyActiveOnSameModule E st (outputs st out) strategy"

definition forcedByPatch :: "AudioPolicyManager \<Rightarrow> audio_io_handle_t \<Rightarrow> bool" where
  "forcedByPatch st out =
     (case mAudioPatches st (mPatchHandle (outputs st out)) of
        Some patchDesc \<Rightarrow> mUid patchDesc \<noteq> mUidCached st
      | None \<Rightarrow> False)"

subsection \<open>Capture concurrency\<close>

text \<open>
  An active input competes with a new client unless the client asks for MMAP no-IRQ and
  the input is the client's own.
\<close>

definition competes :: "RecordClientDescriptor \<Rightarrow> AudioInputDescriptor \<Rightarrow> AudioInputDescriptor \<Rightarrow> bool" where
  "competes client inputDesc activeDesc \<longleftrightarrow>
     recFlags client AND AUDIO_INPUT_FLAG_MMAP_NOIRQ = 0 \<or> inId activeDesc \<noteq> inId inputDesc"

text \<open>
  Index ranges for the round trip of \<open>rescaleVolumeIndex\<close>: a range is valid when
  \<open>0 \<le> min < max\<close>, as \<^verbatim>\<open>initStreamVolume\<close> expects, and \<open>max < 2048\<close>, which keeps
  every intermediate value of the computation within the 24 bits of a \<^verbatim>\<open>float\<close>
  significand.  \<open>indexSteps\<close> is the number of index steps of a stream, and
  \<open>exactRescale\<close> is the affine map between the two ranges over the rationals, before any
  truncation.
\<close>

definition validIndexRange :: "Collaborators \<Rightarrow> audio_stream_type_t \<Rightarrow> bool" where
  "validIndexRange E s \<longleftrightarrow>
     0 \<le> getVolumeIndexMin E s \<and> getVolumeIndexMin E s < getVolumeIndexMax E s \<and>
     getVolumeIndexMax E s < 2048"

definition indexSteps :: "Collaborators \<Rightarrow> audio_stream_type_t \<Rightarrow> int" where
  "indexSteps E s = getVolumeIndexMax E s - getVolumeIndexMin E s"

definition exactRescale ::
  "Collaborators \<Rightarrow> int \<Rightarrow> audio_stream_type_t \<Rightarrow> audio_stream_type_t \<Rightarrow> rat" where
  "exactRescale E i src dst =
     of_int (getVolumeIndexMin E dst) +
     of_int ((i - getVolumeIndexMin E src) * indexSteps E dst) / of_int (indexSteps E src)"

section \<open>A concrete configuration\<close>

text \<open>
  One output (handle 1) on module 1 that supports the earpiece (bit 0) and the speaker
  (bit 1) and plays music on the speaker, one idle input, and collaborators with fixed
  answers.  The closed theorems below evaluate the model on this configuration and on
  variations of it.
\<close>

definition exampleStrategyForStream :: "audio_stream_type_t \<Rightarrow> routing_strategy" where
  "exampleStrategyForStream stream =
     (case stream of
        AUDIO_STREAM_VOICE_CALL \<Rightarrow> STRATEGY_PHONE
      | AUDIO_STREAM_BLUETOOTH_SCO \<Rightarrow> STRATEGY_PHONE
      | AUDIO_STREAM_RING \<Rightarrow> STRATEGY_SONIFICATION
      | AUDIO_STREAM_ALARM \<Rightarrow> STRATEGY_SONIFICATION
      | AUDIO_STREAM_NOTIFICATION \<Rightarrow> STRATEGY_SONIFICATION_RESPECTFUL
      | AUDIO_STREAM_ENFORCED_AUDIBLE \<Rightarrow> STRATEGY_ENFORCED_AUDIBLE
      | AUDIO_STREAM_DTMF \<Rightarrow> STRATEGY_DTMF
      | AUDIO_STREAM_TTS \<Rightarrow> STRATEGY_TRANSMITTED_THROUGH_SPEAKER
      | AUDIO_STREAM_ACCESSIBILITY \<Rightarrow> STRATEGY_ACCESSIBILITY
      | AUDIO_STREAM_REROUTING \<Rightarrow> STRATEGY_REROUTING
      | _ \<Rightarrow> STRATEGY_MEDIA)"

definition exampleCollaborators :: Collaborators where
  "exampleCollaborators =
     \<lparr>audio_is_linear_pcm = (\<lambda>f. f = 1 \<or> f = 2 \<or> f = 3 \<or> f = 4 \<or> f = 5 \<or> f = 6),
      isBetterFormatMatch = (\<lambda>newFormat currentFormat targetFormat.
         newFormat \<noteq> currentFormat \<and>
         (currentFormat = AUDIO_FORMAT_INVALID \<or> newFormat = targetFormat)),
      is_virtual_input_device = (\<lambda>d. False),
      is_state_in_call = (\<lambda>s. s = 2 \<or> s = 3),
      getStrategyForStream = exampleStrategyForStream,
      engineGetDeviceForStrategy = (\<lambda>s. if s = STRATEGY_PHONE then 1 else 2),
      getForceUse = (\<lambda>u. AUDIO_POLICY_FORCE_NONE),
      getPhoneState = 0,
      canBeMuted = (\<lambda>s. True),
      getVolumeIndex = (\<lambda>s d. 5),
      getVolumeIndexMin = (\<lambda>s. 0),
      getVolumeIndexMax = (\<lambda>s. 15),
      computeVolume = (\<lambda>st s i d. real_of_int i - 15),
      createAudioPatch = (\<lambda>p h d. (NO_ERROR, if h = AUDIO_PATCH_HANDLE_NONE then 100 else h)),
      releaseAudioPatch = (\<lambda>h d. NO_ERROR),
      getDevicesFromTypeMask = (\<lambda>ds m. filter (\<lambda>d. deviceType d AND m \<noteq> 0) ds),
      getDevice = (\<lambda>ds m a. find (\<lambda>d. deviceType d AND m \<noteq> 0 \<and> deviceAddress d = a) ds),
      inputSource = (\<lambda>d. case activeClients d of [] \<Rightarrow> AUDIO_SOURCE_DEFAULT | c # _ \<Rightarrow> recSource c),
      soundTriggerSupportsConcurrentCapture = False,
      closeClient = (\<lambda>p st. st\<lparr>inputs := (\<lambda>h. (inputs st h)\<lparr>recordClients :=
                        filter (\<lambda>c. recPortId c \<noteq> p) (recordClients (inputs st h))\<rparr>)\<rparr>)\<rparr>"

definition exampleOutput :: SwAudioOutputDescriptor where
  "exampleOutput =
     \<lparr>mDevice = 2, mFlags = 0, mFormat = 1, mMuteCount = (\<lambda>s. 0),
      mStrategyMutedByDevice = (\<lambda>s. False), mPatchHandle = 0, isDuplicated = False,
      subOutput1 = 0, subOutput2 = 0, profileFlags = 2, supportedDevices = 3, latency = 20,
      isActive = True, isStreamActive = (\<lambda>s. s = AUDIO_STREAM_MUSIC),
      isFixedVolume = (\<lambda>d. False), moduleHandle = 1, trackClients = []\<rparr>"

definition exampleInput :: AudioInputDescriptor where
  "exampleInput =
     \<lparr>inDevice = 0x80000004, inId = 1, inModuleHandle = 1, inPortFlags = 0,
      inIsSoundTrigger = False, inPreemptedSessions = [], inPatchHandle = 0,
      recordClients = []\<rparr>"

definition exampleManager :: AudioPolicyManager where
  "exampleManager =
     \<lparr>outputs = (\<lambda>h. exampleOutput), mOutputs = [1],
      inputs = (\<lambda>h. exampleInput), mInputs = [],
      mAudioPatches = Map.empty, mNextUniqueId = 1, mUidCached = 1000,
      mDeviceForStrategy = (\<lambda>s. 2),
      mAvailableOutputDevices =
        [\<lparr>deviceId = 11, deviceType = 1, deviceAddress = []\<rparr>,
         \<lparr>deviceId = 12, deviceType = 2, deviceAddress = []\<rparr>],
      mAvailableInputDevices = [\<lparr>deviceId = 21, deviceType = 0x80000004, deviceAddress = []\<rparr>],
      mLastVoiceVolume = 0, mAudioPortGeneration = 1, mCallTxPatchModule = None, calls = []\<rparr>"

definition examplePatch :: AudioPatch where
  "examplePatch =
     \<lparr>mHandle = 7, mPatch = \<lparr>sources = [PortMixOutput 1], sinks = []\<rparr>, mUid = 1000,
      mAfPatchHandle = 70\<rparr>"

text \<open>
  A second output on the same module on which a ringtone plays, with an engine that
  routes sonification to earpiece and speaker together.
\<close>

definition exampleRingingManager :: AudioPolicyManager where
  "exampleRingingManager =
     exampleManager\<lparr>mOutputs := [1, 2],
       outputs := (\<lambda>h. if h = 2
                        then exampleOutput\<lparr>isStreamActive := (\<lambda>s. s = AUDIO_STREAM_RING)\<rparr>
                        else exampleOutput)\<rparr>"

definition exampleRingingCollaborators :: Collaborators where
  "exampleRingingCollaborators =
     exampleCollaborators\<lparr>engineGetDeviceForStrategy :=
       (\<lambda>s. if s = STRATEGY_SONIFICATION then 3 else 2)\<rparr>"

text \<open>
  Two inputs: input 1 with an active hotword client of session 7 and the given preempted
  sessions, input 2 with an idle hotword client of session 5 on port 20.
\<close>

definition exampleHotwordClient :: RecordClientDescriptor where
  "exampleHotwordClient =
     \<lparr>recPortId = 10, recSession = 7, recSource = AUDIO_SOURCE_HOTWORD, recFlags = 0,
      recActive = True, recSilenced = False\<rparr>"

definition exampleCaptureManager :: "audio_session_t list \<Rightarrow> AudioPolicyManager" where
  "exampleCaptureManager preempted =
     exampleManager\<lparr>mInputs := [1, 2],
       inputs := (\<lambda>h. if h = 1
                       then exampleInput\<lparr>inId := 1, inPreemptedSessions := preempted,
                                         recordClients := [exampleHotwordClient]\<rparr>
                       else exampleInput\<lparr>inId := 2,
                              recordClients := [exampleHotwordClient\<lparr>recPortId := 20, recSession := 5,
                                                  recActive := False\<rparr>]\<rparr>)\<rparr>"

text \<open>
  Volume curves with the index range 1 to 5 for the voice call stream and 0 to 15 for
  every other stream.
\<close>

definition exampleVolumeCurves :: Collaborators where
  "exampleVolumeCurves =
     exampleCollaborators
       \<lparr>getVolumeIndexMin := (\<lambda>s. if s = AUDIO_STREAM_VOICE_CALL then 1 else 0),
        getVolumeIndexMax := (\<lambda>s. if s = AUDIO_STREAM_VOICE_CALL then 5 else 15)\<rparr>"

section \<open>Properties\<close>

subsection \<open>What the state updates leave alone\<close>

lemma outputs_emit [simp]: "outputs (emit c st) = outputs st"
  and inputs_emit [simp]: "inputs (emit c st) = inputs st"
  and patches_emit [simp]: "mAudioPatches (emit c st) = mAudioPatches st"
  and calls_emit [simp]: "calls (emit c st) = calls st @ [c]"
  and mOutputs_emit [simp]: "mOutputs (emit c st) = mOutputs st"
  by (simp_all add: emit_def)

lemma outputs_updOutput [simp]:
  "outputs (updOutput out f st) = (outputs st)(out := f (outputs st out))"
  and inputs_updOutput [simp]: "inputs (updOutput out f st) = inputs st"
  and patches_updOutput [simp]: "mAudioPatches (updOutput out f st) = mAudioPatches st"
  and calls_updOutput [simp]: "calls (updOutput out f st) = calls st"
  and mOutputs_updOutput [simp]: "mOutputs (updOutput out f st) = mOutputs st"
  by (simp_all add: updOutput_def)

lemma inputs_updInput [simp]:
  "inputs (updInput inp f st) = (inputs st)(inp := f (inputs st inp))"
  and outputs_updInput [simp]: "outputs (updInput inp f st) = outputs st"
  and patches_updInput [simp]: "mAudioPatches (updInput inp f st) = mAudioPatches st"
  and calls_updInput [simp]: "calls (updInput inp f st) = calls st"
  and mOutputs_updInput [simp]: "mOutputs (updInput inp f st) = mOutputs st"
  by (simp_all add: updInput_def)

lemma getPatchHandle_setPatchHandle:
  "getPatchHandle (setPatchHandle io h st) io = h"
  by (cases io) simp_all

lemma patches_setPatchHandle [simp]: "mAudioPatches (setPatchHandle io h st) = mAudioPatches st"
  and calls_setPatchHandle [simp]: "calls (setPatchHandle io h st) = calls st"
  by (cases io; simp)+

lemma checkAndSetVolume_frame:
  "outputs (snd (checkAndSetVolume E stream index out device delayMs force st)) = outputs st"
  "inputs (snd (checkAndSetVolume E stream index out device delayMs force st)) = inputs st"
  "mOutputs (snd (checkAndSetVolume E stream index out device delayMs force st)) = mOutputs st"
  "mAudioPatches (snd (checkAndSetVolume E stream index out device delayMs force st)) = mAudioPatches st"
  by (simp_all add: checkAndSetVolume_def Let_def emit_def)

subsection \<open>Facts about the concrete configuration\<close>

lemma example_answers:
  "getStrategy exampleCollaborators stream = exampleStrategyForStream stream"
  "canBeMuted exampleCollaborators stream"
  "getForceUse exampleCollaborators u = AUDIO_POLICY_FORCE_NONE"
  "getVolumeIndex exampleCollaborators stream d = 5"
  "computeVolume exampleCollaborators st stream i d = real_of_int i - 15"
  by (simp_all add: exampleCollaborators_def getStrategy_def)

lemma example_state:
  "outputs exampleManager h = exampleOutput"
  "calls exampleManager = []"
  "mOutputs exampleManager = [1]"
  by (simp_all add: exampleManager_def)

lemma example_output:
  "mMuteCount exampleOutput stream = 0"
  "mDevice exampleOutput = 2"
  "\<not> isDuplicated exampleOutput"
  "isActive exampleOutput"
  "latency exampleOutput = 20"
  "\<not> isFixedVolume exampleOutput d"
  by (simp_all add: exampleOutput_def)

lemma example_isStrategyActive:
  "isStrategyActive exampleCollaborators exampleOutput strategy \<longleftrightarrow>
     strategy = STRATEGY_MEDIA \<or> strategy = STRATEGY_NONE"
  "isStrategyActive exampleCollaborators
     (exampleOutput\<lparr>isStreamActive := (\<lambda>s. s = AUDIO_STREAM_RING)\<rparr>) strategy \<longleftrightarrow>
     strategy = STRATEGY_SONIFICATION \<or> strategy = STRATEGY_NONE"
  by (auto simp: isStrategyActive_def policy_streams_def getStrategy_def exampleCollaborators_def
      exampleStrategyForStream_def exampleOutput_def)

lemma example_isStrategyActive_ringing:
  "isStrategyActive exampleRingingCollaborators d strategy =
     isStrategyActive exampleCollaborators d strategy"
  by (simp add: isStrategyActive_def getStrategy_def exampleRingingCollaborators_def)

lemma example_device:
  "getDeviceForStrategy exampleCollaborators exampleManager s False = (if s = STRATEGY_PHONE then 1 else 2)"
  by (simp add: getDeviceForStrategy_def findPreferredDevice_all_def findPreferredDevice_def
      clientsList_def exampleManager_def exampleOutput_def exampleCollaborators_def)

lemma example_muteStrategies:
  "foldl (muteStrategies_step exampleCollaborators 1 2 False 0) (exampleManager, 0) strategies =
     (exampleManager, 0)"
proof (induction strategies)
  case Nil
  then show ?case by simp
next
  case (Cons i strategies)
  have "muteStrategies_step exampleCollaborators 1 2 False 0 (exampleManager, 0) i = (exampleManager, 0)"
    by (simp add: muteStrategies_step_def Let_def)
       (simp add: exampleManager_def exampleOutput_def)
  with Cons show ?case by simp
qed

lemma example_getInputForClient:
  "getInputForClient (exampleCaptureManager preempted) 20 =
     Some (2, exampleHotwordClient\<lparr>recPortId := 20, recSession := 5, recActive := False\<rparr>)"
  by (simp add: getInputForClient_def getClient_def exampleCaptureManager_def exampleManager_def
      exampleInput_def exampleHotwordClient_def)

subsection \<open>Patch lifecycle\<close>

text \<open>
  C2.  \<^verbatim>\<open>installPatch\<close> looks up the caller's handle when one is given and is not
  \<^verbatim>\<open>AUDIO_PATCH_HANDLE_NONE\<close>, and the handle of the descriptor otherwise; the
  transport is called with the transport handle of the record found.  When the transport
  succeeds and a record was found, that record is updated under its key, the set of
  handles in the collection is the same as before, and the descriptor holds the handle
  of that record; when none was found, one record is added under a new handle, which
  the descriptor then holds.  When the transport fails, the patch collection and the
  descriptors are as before.  A descriptor has one patch-handle field, so it holds at
  most one handle at any time.
\<close>

theorem installPatch_single_record:
  fixes E patchHandle io patch delayMs st
  defines "key \<equiv> (case patchHandle of
                      Some h \<Rightarrow> if h \<noteq> AUDIO_PATCH_HANDLE_NONE then h else getPatchHandle st io
                    | None \<Rightarrow> getPatchHandle st io)"
  defines "afIn \<equiv> (case mAudioPatches st key of
                       Some found \<Rightarrow> mAfPatchHandle found
                     | None \<Rightarrow> AUDIO_PATCH_HANDLE_NONE)"
  defines "status \<equiv> fst (createAudioPatch E patch afIn delayMs)"
  defines "afOut \<equiv> snd (createAudioPatch E patch afIn delayMs)"
  defines "st' \<equiv> snd (snd (installPatch E patchHandle io patch delayMs st))"
  shows "fst (installPatch E patchHandle io patch delayMs st) = status \<and>
    (status = NO_ERROR \<longrightarrow>
       (\<forall>found. mAudioPatches st key = Some found \<longrightarrow>
          mAudioPatches st' = (mAudioPatches st)(key \<mapsto> found\<lparr>mPatch := patch, mAfPatchHandle := afOut\<rparr>) \<and>
          dom (mAudioPatches st') = dom (mAudioPatches st) \<and>
          getPatchHandle st' io = mHandle found) \<and>
       (mAudioPatches st key = None \<longrightarrow>
          mAudioPatches st' =
            (mAudioPatches st)(mNextUniqueId st \<mapsto>
               \<lparr>mHandle = mNextUniqueId st, mPatch = patch, mUid = mUidCached st,
                mAfPatchHandle = afOut\<rparr>) \<and>
          getPatchHandle st' io = mNextUniqueId st)) \<and>
    (status \<noteq> NO_ERROR \<longrightarrow>
       mAudioPatches st' = mAudioPatches st \<and> outputs st' = outputs st \<and> inputs st' = inputs st)"
proof (cases "mAudioPatches st key")
  case None
  then show ?thesis
    unfolding st'_def status_def afOut_def afIn_def
    using key_def
    by (cases io)
       (auto simp: installPatch_def installPatch_at_def indexOfKey_def Let_def newAudioPatch_def
          addAudioPatch_def nextAudioPortGeneration_def emit_def updOutput_def updInput_def
          split: option.splits)
next
  case (Some found)
  then show ?thesis
    unfolding st'_def status_def afOut_def afIn_def
    using key_def
    by (cases io)
       (auto simp: installPatch_def installPatch_at_def indexOfKey_def Let_def
          nextAudioPortGeneration_def emit_def updOutput_def updInput_def
          split: option.splits)
qed

theorem installPatch_single_record_witness:
  "dom (mAudioPatches (snd (snd (installPatch exampleCollaborators None (OutputDescriptor 1)
          \<lparr>sources = [PortMixOutput 1], sinks = []\<rparr> 0
          (exampleManager\<lparr>mAudioPatches := [0 \<mapsto> examplePatch]\<rparr>))))) = {0} \<and>
   getPatchHandle (snd (snd (installPatch exampleCollaborators None (OutputDescriptor 1)
          \<lparr>sources = [PortMixOutput 1], sinks = []\<rparr> 0 exampleManager))) (OutputDescriptor 1) = 1"
  using installPatch_single_record [where E = exampleCollaborators
      and patch = "\<lparr>sources = [PortMixOutput 1], sinks = []\<rparr>" and patchHandle = None
      and st = "exampleManager\<lparr>mAudioPatches := [0 \<mapsto> examplePatch]\<rparr>"
      and io = "OutputDescriptor 1" and delayMs = 0]
    installPatch_single_record [where E = exampleCollaborators
      and patch = "\<lparr>sources = [PortMixOutput 1], sinks = []\<rparr>" and patchHandle = None
      and st = exampleManager and io = "OutputDescriptor 1" and delayMs = 0]
  by (simp add: exampleManager_def exampleOutput_def exampleCollaborators_def NO_ERROR_def)

lemma resetDevice_release:
  "(mAudioPatches st (case patchHandle of Some h \<Rightarrow> h | None \<Rightarrow> getPatchHandle st io) = None \<longrightarrow>
      resetDevice E io delayMs patchHandle st = (INVALID_OPERATION, st)) \<and>
   (\<forall>patchDesc.
      mAudioPatches st (case patchHandle of Some h \<Rightarrow> h | None \<Rightarrow> getPatchHandle st io) = Some patchDesc \<longrightarrow>
        fst (resetDevice E io delayMs patchHandle st) = releaseAudioPatch E (mAfPatchHandle patchDesc) delayMs \<and>
        calls (snd (resetDevice E io delayMs patchHandle st)) =
          calls st @ [ReleaseAudioPatch (mAfPatchHandle patchDesc) delayMs, OnAudioPatchListUpdate] \<and>
        getPatchHandle (snd (resetDevice E io delayMs patchHandle st)) io = AUDIO_PATCH_HANDLE_NONE \<and>
        mAudioPatches (snd (resetDevice E io delayMs patchHandle st)) =
          (mAudioPatches st)(mHandle patchDesc := None))"
  by (cases io; cases patchHandle)
     (auto simp: resetDevice_def indexOfKey_def Let_def removeAudioPatch_def
        nextAudioPortGeneration_def)

text \<open>
  C7.  \<^verbatim>\<open>resetOutputDevice\<close> and \<^verbatim>\<open>resetInputDevice\<close> look up the caller's handle
  when one is given and the handle of the stream otherwise.  When the patch collection
  has no record under it, in particular when no handle is given and no patch is attached
  to the stream, the result is \<^verbatim>\<open>INVALID_OPERATION\<close> and the state is the one before
  the call.  When it has one, the transport is asked to release the transport handle of
  that record (the result is the status of that call), the patch handle of the stream
  is cleared and the record is removed from the collection under its handle.
\<close>

theorem reset_device_releases_patch:
  "(mAudioPatches st (case patchHandle of Some h \<Rightarrow> h | None \<Rightarrow> mPatchHandle (outputs st out)) = None \<longrightarrow>
      resetOutputDevice E out delayMs patchHandle st = (INVALID_OPERATION, st)) \<and>
   (\<forall>patchDesc.
      mAudioPatches st (case patchHandle of Some h \<Rightarrow> h | None \<Rightarrow> mPatchHandle (outputs st out)) = Some patchDesc \<longrightarrow>
        fst (resetOutputDevice E out delayMs patchHandle st) =
          releaseAudioPatch E (mAfPatchHandle patchDesc) delayMs \<and>
        calls (snd (resetOutputDevice E out delayMs patchHandle st)) =
          calls st @ [ReleaseAudioPatch (mAfPatchHandle patchDesc) delayMs, OnAudioPatchListUpdate] \<and>
        mPatchHandle (outputs (snd (resetOutputDevice E out delayMs patchHandle st)) out) =
          AUDIO_PATCH_HANDLE_NONE \<and>
        mAudioPatches (snd (resetOutputDevice E out delayMs patchHandle st)) =
          (mAudioPatches st)(mHandle patchDesc := None)) \<and>
   (mAudioPatches st (case patchHandle of Some h \<Rightarrow> h | None \<Rightarrow> inPatchHandle (inputs st inp)) = None \<longrightarrow>
      resetInputDevice E inp patchHandle st = (INVALID_OPERATION, st)) \<and>
   (\<forall>patchDesc.
      mAudioPatches st (case patchHandle of Some h \<Rightarrow> h | None \<Rightarrow> inPatchHandle (inputs st inp)) = Some patchDesc \<longrightarrow>
        fst (resetInputDevice E inp patchHandle st) =
          releaseAudioPatch E (mAfPatchHandle patchDesc) 0 \<and>
        calls (snd (resetInputDevice E inp patchHandle st)) =
          calls st @ [ReleaseAudioPatch (mAfPatchHandle patchDesc) 0, OnAudioPatchListUpdate] \<and>
        inPatchHandle (inputs (snd (resetInputDevice E inp patchHandle st)) inp) =
          AUDIO_PATCH_HANDLE_NONE \<and>
        mAudioPatches (snd (resetInputDevice E inp patchHandle st)) =
          (mAudioPatches st)(mHandle patchDesc := None))"
proof -
  have out: "getPatchHandle st (OutputDescriptor out) = mPatchHandle (outputs st out)"
    "\<And>s. getPatchHandle s (OutputDescriptor out) = mPatchHandle (outputs s out)"
    and inp: "getPatchHandle st (InputDescriptor inp) = inPatchHandle (inputs st inp)"
    "\<And>s. getPatchHandle s (InputDescriptor inp) = inPatchHandle (inputs s inp)"
    by simp_all
  show ?thesis
    using resetDevice_release [where st = st and patchHandle = patchHandle
        and io = "OutputDescriptor out" and E = E and delayMs = delayMs]
      resetDevice_release [where st = st and patchHandle = patchHandle
        and io = "InputDescriptor inp" and E = E and delayMs = 0]
    unfolding resetOutputDevice_def resetInputDevice_def out inp
    by blast
qed

theorem reset_device_releases_patch_witness:
  "resetOutputDevice exampleCollaborators 1 0 None exampleManager =
     (INVALID_OPERATION, exampleManager) \<and>
   mAudioPatches (snd (resetOutputDevice exampleCollaborators 1 0 None
      (exampleManager\<lparr>mAudioPatches := [7 \<mapsto> examplePatch],
         outputs := (\<lambda>h. exampleOutput\<lparr>mPatchHandle := 7\<rparr>)\<rparr>))) = Map.empty \<and>
   mPatchHandle (outputs (snd (resetOutputDevice exampleCollaborators 1 0 None
      (exampleManager\<lparr>mAudioPatches := [7 \<mapsto> examplePatch],
         outputs := (\<lambda>h. exampleOutput\<lparr>mPatchHandle := 7\<rparr>)\<rparr>))) 1) = AUDIO_PATCH_HANDLE_NONE \<and>
   resetInputDevice exampleCollaborators 1 None exampleManager =
     (INVALID_OPERATION, exampleManager)"
  using reset_device_releases_patch [where st = exampleManager and patchHandle = None
      and out = 1 and inp = 1 and E = exampleCollaborators and delayMs = 0]
    reset_device_releases_patch [where
      st = "exampleManager\<lparr>mAudioPatches := [7 \<mapsto> examplePatch],
              outputs := (\<lambda>h. exampleOutput\<lparr>mPatchHandle := 7\<rparr>)\<rparr>"
      and patchHandle = None and out = 1 and inp = 1 and E = exampleCollaborators and delayMs = 0]
  by (simp add: exampleManager_def exampleOutput_def exampleInput_def examplePatch_def)

subsection \<open>Volume and mute\<close>

lemma checkAndSetVolume_muted:
  "mMuteCount (outputs st out) stream \<noteq> 0 \<Longrightarrow>
   checkAndSetVolume E stream index out device delayMs force st = (NO_ERROR, st)"
  by (simp add: checkAndSetVolume_def)

text \<open>
  C10.  For a stream that is not muted (a muted stream returns before the test, see
  \<open>checkAndSetVolume_muted\<close>): \<^verbatim>\<open>checkAndSetVolume\<close> returns
  \<^verbatim>\<open>INVALID_OPERATION\<close> and the state is the one before the call when the stream is
  \<^verbatim>\<open>VOICE_CALL\<close> and the force-use for communication is Bluetooth SCO, or the stream
  is \<^verbatim>\<open>BLUETOOTH_SCO\<close> and that force-use is anything else.  In every other case the
  result is \<^verbatim>\<open>NO_ERROR\<close> and the next call issued is \<^verbatim>\<open>setVolume\<close> on the
  descriptor with the computed volume (0 dB for a fixed-volume device and for a voice
  stream on a SCO device).
\<close>

theorem checkAndSetVolume_sco_guard:
  assumes "mMuteCount (outputs st out) stream = 0"
  shows "((stream = AUDIO_STREAM_VOICE_CALL \<and>
           getForceUse E AUDIO_POLICY_FORCE_FOR_COMMUNICATION = AUDIO_POLICY_FORCE_BT_SCO) \<or>
          (stream = AUDIO_STREAM_BLUETOOTH_SCO \<and>
           getForceUse E AUDIO_POLICY_FORCE_FOR_COMMUNICATION \<noteq> AUDIO_POLICY_FORCE_BT_SCO) \<longrightarrow>
            checkAndSetVolume E stream index out device delayMs force st = (INVALID_OPERATION, st)) \<and>
         (\<not> ((stream = AUDIO_STREAM_VOICE_CALL \<and>
               getForceUse E AUDIO_POLICY_FORCE_FOR_COMMUNICATION = AUDIO_POLICY_FORCE_BT_SCO) \<or>
              (stream = AUDIO_STREAM_BLUETOOTH_SCO \<and>
               getForceUse E AUDIO_POLICY_FORCE_FOR_COMMUNICATION \<noteq> AUDIO_POLICY_FORCE_BT_SCO)) \<longrightarrow>
            fst (checkAndSetVolume E stream index out device delayMs force st) = NO_ERROR \<and>
            take (Suc (length (calls st)))
                 (calls (snd (checkAndSetVolume E stream index out device delayMs force st))) =
              calls st @
              [SetVolume out
                 (let d = (if device = AUDIO_DEVICE_NONE then device_of st out else device) in
                  if isFixedVolume (outputs st out) d \<or>
                     ((stream = AUDIO_STREAM_VOICE_CALL \<or> stream = AUDIO_STREAM_BLUETOOTH_SCO) \<and>
                      d AND AUDIO_DEVICE_OUT_ALL_SCO \<noteq> 0)
                  then 0 else computeVolume E st stream index d)
                 stream (if device = AUDIO_DEVICE_NONE then device_of st out else device)
                 delayMs force])"
  using assms
  by (auto simp: checkAndSetVolume_def Let_def emit_def)

theorem checkAndSetVolume_sco_guard_witness:
  "checkAndSetVolume (exampleCollaborators\<lparr>getForceUse := (\<lambda>u. AUDIO_POLICY_FORCE_BT_SCO)\<rparr>)
     AUDIO_STREAM_VOICE_CALL 3 1 0 0 False exampleManager = (INVALID_OPERATION, exampleManager)"
  using checkAndSetVolume_sco_guard [where st = exampleManager and out = 1
      and stream = AUDIO_STREAM_VOICE_CALL
      and E = "exampleCollaborators\<lparr>getForceUse := (\<lambda>u. AUDIO_POLICY_FORCE_BT_SCO)\<rparr>"
      and index = 3 and device = 0 and delayMs = 0 and force = False]
  by (simp add: exampleManager_def exampleOutput_def exampleCollaborators_def)

lemma mMuteCount_setMuteCount [simp]:
  "mMuteCount (outputs (setMuteCount out stream n st) out') stream' =
     (if out' = out \<and> stream' = stream then n else mMuteCount (outputs st out') stream')"
  by (simp add: setMuteCount_def)

lemma calls_setMuteCount [simp]: "calls (setMuteCount out stream n st) = calls st"
  by (simp add: setMuteCount_def)

lemma setStreamMute_count:
  "mMuteCount (outputs (setStreamMute E stream on out delayMs device st) out') stream' =
     (if out' = out \<and> stream' = stream then
        (if on then mMuteCount (outputs st out) stream + 1
         else if mMuteCount (outputs st out) stream = 0 then 0
         else mMuteCount (outputs st out) stream - 1)
      else mMuteCount (outputs st out') stream')"
  by (simp add: setStreamMute_def Let_def checkAndSetVolume_frame)

lemma setStreamMute_calls_mute:
  "mMuteCount (outputs st out) stream \<noteq> 0 \<Longrightarrow>
   calls (setStreamMute E stream True out delayMs device st) = calls st"
  by (simp add: setStreamMute_def Let_def)

lemma setStreamMute_calls_unmute:
  "mMuteCount (outputs st out) stream \<noteq> 1 \<Longrightarrow>
   calls (setStreamMute E stream False out delayMs device st) = calls st"
  by (simp add: setStreamMute_def Let_def)

lemma setStreamMute_unmute_zero:
  "mMuteCount (outputs st out) stream = 0 \<Longrightarrow>
   setStreamMute E stream False out delayMs device st = st"
  by (simp add: setStreamMute_def Let_def)

lemma setStreamMutes_count:
  "mMuteCount (outputs st out) stream = int n \<Longrightarrow>
   mMuteCount (outputs (setStreamMutes E reqs st) out) stream =
     int (unmatchedMutes n (requestsFor out stream reqs))"
proof (induction reqs arbitrary: st n)
  case Nil
  then show ?case by (simp add: setStreamMutes_def requestsFor_def)
next
  case (Cons r reqs)
  let ?st1 = "setStreamMute E (reqStream r) (reqOn r) (reqOutput r) (reqDelayMs r) (reqDevice r) st"
  have step: "setStreamMutes E (r # reqs) st = setStreamMutes E reqs ?st1"
    by (simp add: setStreamMutes_def)
  show ?case
  proof (cases "reqOutput r = out \<and> reqStream r = stream")
    case False
    then have "mMuteCount (outputs ?st1 out) stream = int n"
      using Cons.prems by (auto simp: setStreamMute_count)
    from Cons.IH [OF this] False show ?thesis
      by (auto simp: step requestsFor_def)
  next
    case True
    show ?thesis
    proof (cases "reqOn r")
      case on: True
      have "mMuteCount (outputs ?st1 out) stream = int (Suc n)"
        using True on Cons.prems by (simp add: setStreamMute_count)
      from Cons.IH [OF this] True on show ?thesis
        by (simp add: step requestsFor_def)
    next
      case off: False
      have "mMuteCount (outputs ?st1 out) stream = int (n - 1)"
        using True off Cons.prems by (cases n) (simp_all add: setStreamMute_count)
      from Cons.IH [OF this] True off show ?thesis
        by (simp add: step requestsFor_def)
    qed
  qed
qed

lemma setStreamMute_mute_first:
  "mMuteCount (outputs st out) stream = 0 \<Longrightarrow> canBeMuted E stream \<Longrightarrow>
   stream \<noteq> AUDIO_STREAM_ENFORCED_AUDIBLE \<or>
     getForceUse E AUDIO_POLICY_FORCE_FOR_SYSTEM = AUDIO_POLICY_FORCE_NONE \<Longrightarrow>
   setStreamMute E stream True out delayMs device st =
     setMuteCount out stream 1
       (snd (checkAndSetVolume E stream 0 out
               (if device = AUDIO_DEVICE_NONE then device_of st out else device) delayMs False st))"
  by (auto simp: setStreamMute_def Let_def checkAndSetVolume_frame)

lemma setStreamMute_unmute_last:
  "mMuteCount (outputs st out) stream = 1 \<Longrightarrow>
   setStreamMute E stream False out delayMs device st =
     snd (checkAndSetVolume E stream
            (getVolumeIndex E stream (if device = AUDIO_DEVICE_NONE then device_of st out else device))
            out (if device = AUDIO_DEVICE_NONE then device_of st out else device) delayMs False
            (setMuteCount out stream 0 st))"
  by (simp add: setStreamMute_def Let_def)

text \<open>
  C4.  Starting from a counter at zero, after any sequence of \<^verbatim>\<open>setStreamMute\<close> calls
  (on any outputs and stream types) the mute counter of an output and stream type equals
  the number of unmatched mute requests made for them, and it is not negative.  A mute
  call adds one to the counter and issues no call unless the counter was zero, in which
  case (for a stream that can be muted) it applies the volume of index 0 first.  An
  unmute call with a positive counter subtracts one and issues no call unless the
  counter was one, in which case it then restores the volume of the current index.  An
  unmute call with the counter at zero returns the state as it was.
\<close>

theorem setStreamMute_counter:
  "(mMuteCount (outputs st out) stream = 0 \<longrightarrow>
      mMuteCount (outputs (setStreamMutes E reqs st) out) stream =
        int (unmatchedMutes 0 (requestsFor out stream reqs)) \<and>
      0 \<le> mMuteCount (outputs (setStreamMutes E reqs st) out) stream) \<and>
   mMuteCount (outputs (setStreamMute E stream True out delayMs device st) out) stream =
     mMuteCount (outputs st out) stream + 1 \<and>
   (mMuteCount (outputs st out) stream \<noteq> 0 \<longrightarrow>
      calls (setStreamMute E stream True out delayMs device st) = calls st) \<and>
   (mMuteCount (outputs st out) stream = 0 \<and> canBeMuted E stream \<and>
    (stream \<noteq> AUDIO_STREAM_ENFORCED_AUDIBLE \<or>
     getForceUse E AUDIO_POLICY_FORCE_FOR_SYSTEM = AUDIO_POLICY_FORCE_NONE) \<longrightarrow>
      setStreamMute E stream True out delayMs device st =
        setMuteCount out stream 1
          (snd (checkAndSetVolume E stream 0 out
                  (if device = AUDIO_DEVICE_NONE then device_of st out else device) delayMs False st))) \<and>
   (0 < mMuteCount (outputs st out) stream \<longrightarrow>
      mMuteCount (outputs (setStreamMute E stream False out delayMs device st) out) stream =
        mMuteCount (outputs st out) stream - 1) \<and>
   (mMuteCount (outputs st out) stream \<noteq> 1 \<longrightarrow>
      calls (setStreamMute E stream False out delayMs device st) = calls st) \<and>
   (mMuteCount (outputs st out) stream = 1 \<longrightarrow>
      setStreamMute E stream False out delayMs device st =
        snd (checkAndSetVolume E stream
               (getVolumeIndex E stream (if device = AUDIO_DEVICE_NONE then device_of st out else device))
               out (if device = AUDIO_DEVICE_NONE then device_of st out else device) delayMs False
               (setMuteCount out stream 0 st))) \<and>
   (mMuteCount (outputs st out) stream = 0 \<longrightarrow>
      setStreamMute E stream False out delayMs device st = st)"
  using setStreamMutes_count [of st out stream 0 E reqs]
    setStreamMute_mute_first [of st out stream E delayMs device]
    setStreamMute_unmute_last [of st out stream E delayMs device]
  by (simp add: setStreamMute_count setStreamMute_calls_mute setStreamMute_calls_unmute
      setStreamMute_unmute_zero)

theorem setStreamMute_counter_witness:
  "mMuteCount (outputs (setStreamMutes exampleCollaborators
       [\<lparr>reqStream = AUDIO_STREAM_MUSIC, reqOn = False, reqOutput = 1, reqDelayMs = 0, reqDevice = 0\<rparr>,
        \<lparr>reqStream = AUDIO_STREAM_MUSIC, reqOn = True, reqOutput = 1, reqDelayMs = 0, reqDevice = 0\<rparr>,
        \<lparr>reqStream = AUDIO_STREAM_MUSIC, reqOn = True, reqOutput = 1, reqDelayMs = 0, reqDevice = 0\<rparr>,
        \<lparr>reqStream = AUDIO_STREAM_MUSIC, reqOn = False, reqOutput = 1, reqDelayMs = 0, reqDevice = 0\<rparr>]
       exampleManager) 1) AUDIO_STREAM_MUSIC = 1"
  using setStreamMute_counter [where st = exampleManager and out = 1
      and stream = AUDIO_STREAM_MUSIC and E = exampleCollaborators and reqs =
      "[\<lparr>reqStream = AUDIO_STREAM_MUSIC, reqOn = False, reqOutput = 1, reqDelayMs = 0, reqDevice = 0\<rparr>,
        \<lparr>reqStream = AUDIO_STREAM_MUSIC, reqOn = True, reqOutput = 1, reqDelayMs = 0, reqDevice = 0\<rparr>,
        \<lparr>reqStream = AUDIO_STREAM_MUSIC, reqOn = True, reqOutput = 1, reqDelayMs = 0, reqDevice = 0\<rparr>,
        \<lparr>reqStream = AUDIO_STREAM_MUSIC, reqOn = False, reqOutput = 1, reqDelayMs = 0, reqDevice = 0\<rparr>]"]
  by (simp add: exampleManager_def exampleOutput_def requestsFor_def)

subsection \<open>Output selection\<close>

lemma closestFormat_invalid [simp]:
  "closestFormat E st AUDIO_FORMAT_INVALID start hs = start"
  by (simp add: closestFormat_def)

lemma mostCommonFlags_snoc:
  "mostCommonFlags st flags (hs @ [h]) =
     max (mostCommonFlags st flags hs) (commonFlagsOf st flags h)"
  unfolding mostCommonFlags_def
  by (induction hs) (auto simp: max.assoc max.commute max.left_commute)

lemma commonFlagsOf_le_most:
  "h \<in> set hs \<Longrightarrow> commonFlagsOf st flags h \<le> mostCommonFlags st flags hs"
  unfolding mostCommonFlags_def by (induction hs) auto

lemma filter_most_nonempty:
  "0 < mostCommonFlags st flags hs \<Longrightarrow>
   filter (\<lambda>h. commonFlagsOf st flags h = mostCommonFlags st flags hs) hs \<noteq> []"
  unfolding mostCommonFlags_def
proof (induction hs)
  case Nil
  then show ?case by simp
next
  case (Cons a hs)
  then show ?case by (auto simp: max_def filter_empty_conv split: if_splits)
qed

lemma closestFormat_snoc:
  "closestFormat E st format start (hs @ [h]) =
     (if format = AUDIO_FORMAT_INVALID then start
      else closerFormat E st format (closestFormat E st format start hs) h)"
  by (simp add: closestFormat_def)

lemma filter_below_empty:
  assumes "mostCommonFlags st flags hs < c"
  shows "filter (\<lambda>h. commonFlagsOf st flags h = c) hs = []"
proof -
  have "\<And>h. h \<in> set hs \<Longrightarrow> commonFlagsOf st flags h \<noteq> c"
    using assms commonFlagsOf_le_most [of _ hs st flags] by fastforce
  then show ?thesis by (simp add: filter_empty_conv)
qed

lemma bestByFlags_snoc:
  "bestByFlags E st flags format (hs @ [h]) =
     (let m = mostCommonFlags st flags hs; c = commonFlagsOf st flags h;
          b = bestByFlags E st flags format hs in
      if c < m then b
      else if c = m then
        (if format \<noteq> AUDIO_FORMAT_INVALID then closerFormat E st format b h else b)
      else (h, mFormat (outputs st h)))"
proof -
  let ?m = "mostCommonFlags st flags hs"
  let ?c = "commonFlagsOf st flags h"
  consider (lt) "?c < ?m" | (eq) "?c = ?m" | (gt) "?m < ?c" by linarith
  then show ?thesis
  proof cases
    case lt
    then show ?thesis
      by (simp add: bestByFlags_def mostCommonFlags_snoc max_def Let_def)
  next
    case eq
    show ?thesis
    proof (cases "?m = 0")
      case True
      with eq show ?thesis
        by (simp add: bestByFlags_def mostCommonFlags_snoc closestFormat_snoc Let_def)
    next
      case False
      then have ne: "filter (\<lambda>h. commonFlagsOf st flags h = ?m) hs \<noteq> []"
        using filter_most_nonempty [of st flags hs] by simp
      then obtain a as where as: "filter (\<lambda>h. commonFlagsOf st flags h = ?m) hs = a # as"
        by (cases "filter (\<lambda>h. commonFlagsOf st flags h = ?m) hs") auto
      with eq False show ?thesis
        by (simp add: bestByFlags_def mostCommonFlags_snoc closestFormat_snoc Let_def)
    qed
  next
    case gt
    then have "filter (\<lambda>h. commonFlagsOf st flags h = ?c) hs = []"
      by (rule filter_below_empty)
    with gt show ?thesis
      by (simp add: bestByFlags_def mostCommonFlags_snoc max_def Let_def closestFormat_def)
  qed
qed

lemma lastPrimary_snoc:
  "lastPrimary st (hs @ [h]) =
     (if profileFlags (outputs st h) AND AUDIO_OUTPUT_FLAG_PRIMARY \<noteq> 0 then h
      else lastPrimary st hs)"
  by (simp add: lastPrimary_def)

lemma select_inv_init:
  "select_inv E st flags format [] select_init"
  by (simp add: select_inv_def select_init_def mostCommonFlags_def bestByFlags_def
      bestByFormat_def closestFormat_def lastPrimary_def)

lemma select_step_skip:
  "\<not> considered E st format h \<Longrightarrow> selectOutput_step E st flags format s h = s"
  by (auto simp: considered_def selectOutput_step_def Let_def)

lemma select_inv_step:
  assumes inv: "select_inv E st flags format cands s"
    and c: "considered E st format h"
  shows "select_inv E st flags format (cands @ [h]) (selectOutput_step E st flags format s h)"
proof -
  have m: "mostCommonFlags st flags cands = maxCommonFlags s"
    and f: "bestByFlags E st flags format cands = (outputForFlags s, bestFormatForFlags s)"
    and g: "bestByFormat E st format cands = (outputForFormat s, bestFormat s)"
    and p: "lastPrimary st cands = outputForPrimary s"
    using inv by (simp_all add: select_inv_def prod_eq_iff)
  have g': "closestFormat E st format (AUDIO_IO_HANDLE_NONE, AUDIO_FORMAT_INVALID) cands =
      (outputForFormat s, bestFormat s)"
    using g by (simp add: bestByFormat_def)
  have nd: "\<not> isDuplicated (outputs st h)" "mFlags (outputs st h) AND AUDIO_OUTPUT_FLAG_DIRECT = 0"
    "format = AUDIO_FORMAT_INVALID \<or> audio_is_linear_pcm E format"
    using c by (auto simp: considered_def)
  show ?thesis
  proof (cases "format = AUDIO_FORMAT_INVALID")
    case True
    then show ?thesis
      unfolding select_inv_def
      using nd g' f
      by (simp add: selectOutput_step_def Let_def mostCommonFlags_snoc bestByFlags_snoc
          lastPrimary_snoc bestByFormat_def m p commonFlagsOf_def max_def)
  next
    case False
    then show ?thesis
      unfolding select_inv_def
      using nd
      by (simp add: selectOutput_step_def Let_def mostCommonFlags_snoc bestByFlags_snoc
          lastPrimary_snoc bestByFormat_def closestFormat_snoc m f g' p commonFlagsOf_def
          closerFormat_def max_def)
  qed
qed

lemma select_inv_foldl:
  "select_inv E st flags format (filter (considered E st format) outs)
     (foldl (selectOutput_step E st flags format) select_init outs)"
proof (induction outs rule: rev_induct)
  case Nil
  then show ?case by (simp add: select_inv_init)
next
  case (snoc h hs)
  then show ?case
    by (cases "considered E st format h") (simp_all add: select_inv_step select_step_skip)
qed

lemma closestFormat_mem:
  "fst (closestFormat E st format start hs) \<in> insert (fst start) (set hs)"
proof (cases "format = AUDIO_FORMAT_INVALID")
  case True
  then show ?thesis by simp
next
  case False
  have "fst (foldl (closerFormat E st format) start hs) \<in> insert (fst start) (set hs)"
    by (induction hs rule: rev_induct) (auto simp: closerFormat_def)
  with False show ?thesis by (simp add: closestFormat_def)
qed

lemma bestByFlags_most:
  assumes "fst (bestByFlags E st flags format cands) \<noteq> AUDIO_IO_HANDLE_NONE"
  shows "fst (bestByFlags E st flags format cands) \<in> set cands \<and>
         commonFlagsOf st flags (fst (bestByFlags E st flags format cands)) =
           mostCommonFlags st flags cands"
proof (cases "mostCommonFlags st flags cands = 0")
  case True
  with assms have mem: "fst (bestByFlags E st flags format cands) \<in> set cands"
    using closestFormat_mem [of E st format "(AUDIO_IO_HANDLE_NONE, AUDIO_FORMAT_INVALID)" cands]
    by (simp add: bestByFlags_def)
  from commonFlagsOf_le_most [OF mem, of st flags] True mem show ?thesis by simp
next
  case False
  let ?top = "filter (\<lambda>h. commonFlagsOf st flags h = mostCommonFlags st flags cands) cands"
  from False have "?top \<noteq> []" by (simp add: filter_most_nonempty)
  then obtain a as where top: "?top = a # as" by (cases ?top) auto
  have "fst (bestByFlags E st flags format cands) \<in> insert a (set as)"
    using False top closestFormat_mem [of E st format "(a, mFormat (outputs st a))" as]
    by (simp add: bestByFlags_def)
  then have "fst (bestByFlags E st flags format cands) \<in> set ?top"
    by (simp add: top)
  then show ?thesis by simp
qed

text \<open>
  C8, as the code has it.  A single candidate is returned as it is.  Among several,
  \<^verbatim>\<open>selectOutput\<close> considers the candidates that are neither duplicated nor direct
  and, when a format is requested, considers them only if that format is linear PCM.  It
  returns the considered candidate whose profile shares the most requested flags, ties
  broken by the scan for the closest format in list order; failing that the considered
  candidate with the closest format, then the last considered candidate with the
  primary flag, then the first element of the list.  The candidate chosen by flags is a
  considered candidate and no considered candidate shares more flags.
\<close>

theorem selectOutput_priority:
  "selectOutput E st outs flags format =
     (case outs of
        [] \<Rightarrow> AUDIO_IO_HANDLE_NONE
      | [output] \<Rightarrow> output
      | first # _ \<Rightarrow>
          (let cands = filter (considered E st format) outs;
               byFlags = fst (bestByFlags E st flags format cands);
               byFormat = fst (bestByFormat E st format cands);
               primary = lastPrimary st cands
           in if byFlags \<noteq> AUDIO_IO_HANDLE_NONE then byFlags
              else if byFormat \<noteq> AUDIO_IO_HANDLE_NONE then byFormat
              else if primary \<noteq> AUDIO_IO_HANDLE_NONE then primary
              else first)) \<and>
   (fst (bestByFlags E st flags format (filter (considered E st format) outs)) \<noteq> AUDIO_IO_HANDLE_NONE \<longrightarrow>
      fst (bestByFlags E st flags format (filter (considered E st format) outs))
        \<in> set (filter (considered E st format) outs) \<and>
      (\<forall>h \<in> set (filter (considered E st format) outs).
         commonFlagsOf st flags h \<le>
         commonFlagsOf st flags (fst (bestByFlags E st flags format (filter (considered E st format) outs)))))"
proof -
  have inv: "select_inv E st flags format (filter (considered E st format) outs)
      (foldl (selectOutput_step E st flags format) select_init outs)"
    by (rule select_inv_foldl)
  have eq: "selectOutput E st outs flags format =
     (case outs of
        [] \<Rightarrow> AUDIO_IO_HANDLE_NONE
      | [output] \<Rightarrow> output
      | first # _ \<Rightarrow>
          (let cands = filter (considered E st format) outs;
               byFlags = fst (bestByFlags E st flags format cands);
               byFormat = fst (bestByFormat E st format cands);
               primary = lastPrimary st cands
           in if byFlags \<noteq> AUDIO_IO_HANDLE_NONE then byFlags
              else if byFormat \<noteq> AUDIO_IO_HANDLE_NONE then byFormat
              else if primary \<noteq> AUDIO_IO_HANDLE_NONE then primary
              else first))"
  proof -
    have f: "outputForFlags (foldl (selectOutput_step E st flags format) select_init outs) =
        fst (bestByFlags E st flags format (filter (considered E st format) outs))"
      and g: "outputForFormat (foldl (selectOutput_step E st flags format) select_init outs) =
        fst (bestByFormat E st format (filter (considered E st format) outs))"
      and p: "outputForPrimary (foldl (selectOutput_step E st flags format) select_init outs) =
        lastPrimary st (filter (considered E st format) outs)"
      using inv by (simp_all add: select_inv_def)
    show ?thesis
      by (simp only: selectOutput_def Let_def f g p)
  qed
  have most: "fst (bestByFlags E st flags format (filter (considered E st format) outs)) \<noteq> AUDIO_IO_HANDLE_NONE \<longrightarrow>
      fst (bestByFlags E st flags format (filter (considered E st format) outs))
        \<in> set (filter (considered E st format) outs) \<and>
      (\<forall>h \<in> set (filter (considered E st format) outs).
         commonFlagsOf st flags h \<le>
         commonFlagsOf st flags (fst (bestByFlags E st flags format (filter (considered E st format) outs))))"
    using bestByFlags_most [of E st flags format "filter (considered E st format) outs"]
      commonFlagsOf_le_most [of _ "filter (considered E st format) outs" st flags]
    by auto
  from eq most show ?thesis by (rule conjI)
qed

lemma popcount_examples: "popcount 0 = 0" "popcount 8 = 1" "popcount 2 = 1"
  by (simp_all add: popcount_def upt_rec)

theorem selectOutput_priority_witness:
  "selectOutput exampleCollaborators
     (exampleManager\<lparr>outputs := (\<lambda>h. if h = 2 then exampleOutput\<lparr>profileFlags := 8\<rparr>
                                        else exampleOutput\<lparr>profileFlags := 0\<rparr>)\<rparr>)
     [1, 2] 8 1 = 2"
  using selectOutput_priority [where E = exampleCollaborators
      and st = "exampleManager\<lparr>outputs := (\<lambda>h. if h = 2 then exampleOutput\<lparr>profileFlags := 8\<rparr>
                                                 else exampleOutput\<lparr>profileFlags := 0\<rparr>)\<rparr>"
      and outs = "[1, 2]" and flags = 8 and format = 1]
  by (simp add: considered_def exampleCollaborators_def exampleManager_def exampleOutput_def
      bestByFlags_def mostCommonFlags_def commonFlagsOf_def popcount_examples closestFormat_def
      closerFormat_def AUDIO_OUTPUT_FLAG_DIRECT_def AUDIO_FORMAT_INVALID_def
      AUDIO_IO_HANDLE_NONE_def)

text \<open>
  C8 as stated fails when the requested format is valid but not linear PCM: both
  candidates are neither duplicated nor direct, candidate 2 shares one requested flag
  and candidate 1 none, and the first element of the list, candidate 1, is returned.
\<close>

theorem selectOutput_nonpcm_counterexample:
  "selectOutput exampleCollaborators
     (exampleManager\<lparr>outputs := (\<lambda>h. if h = 2 then exampleOutput\<lparr>profileFlags := 8\<rparr>
                                        else exampleOutput\<lparr>profileFlags := 0\<rparr>)\<rparr>)
     [1, 2] 8 0x1000000 = 1 \<and>
   \<not> isDuplicated (exampleOutput\<lparr>profileFlags := 8\<rparr>) \<and>
   mFlags (exampleOutput\<lparr>profileFlags := 8\<rparr>) AND AUDIO_OUTPUT_FLAG_DIRECT = 0 \<and>
   popcount (profileFlags (exampleOutput\<lparr>profileFlags := 0\<rparr>) AND 8) <
   popcount (profileFlags (exampleOutput\<lparr>profileFlags := 8\<rparr>) AND 8)"
  by (simp add: selectOutput_def selectOutput_step_def select_init_def exampleCollaborators_def
      exampleManager_def exampleOutput_def popcount_examples AUDIO_OUTPUT_FLAG_DIRECT_def
      AUDIO_FORMAT_INVALID_def AUDIO_IO_HANDLE_NONE_def Let_def)

subsection \<open>Setting the device of an output\<close>

lemma routingOf_fields:
  "routingOf st' = routingOf st \<Longrightarrow>
   mDevice (outputs st' h) = mDevice (outputs st h) \<and>
   supportedDevices (outputs st' h) = supportedDevices (outputs st h) \<and>
   isDuplicated (outputs st' h) = isDuplicated (outputs st h) \<and>
   latency (outputs st' h) = latency (outputs st h) \<and>
   isActive (outputs st' h) = isActive (outputs st h) \<and>
   isStreamActive (outputs st' h) = isStreamActive (outputs st h)"
  by (drule fun_cong [where x = h]) (simp add: routingOf_def)

lemma foldl_preserves:
  assumes "\<And>s x. p (f s x) = p s"
  shows "p (foldl f s xs) = p s"
  using assms by (induction xs arbitrary: s) simp_all

lemma routingOf_emit [simp]: "routingOf (emit c st) = routingOf st"
  by (simp add: routingOf_def fun_eq_iff)

lemma routingOf_setMuteCount [simp]: "routingOf (setMuteCount out stream n st) = routingOf st"
  by (simp add: routingOf_def fun_eq_iff setMuteCount_def)

lemma routingOf_setStrategyMutedByDevice [simp]:
  "routingOf (setStrategyMutedByDevice out i b st) = routingOf st"
  by (simp add: routingOf_def fun_eq_iff setStrategyMutedByDevice_def)

lemma routingOf_setPatchHandle [simp]: "routingOf (setPatchHandle io h st) = routingOf st"
  by (cases io) (simp_all add: routingOf_def fun_eq_iff)

lemma routingOf_checkAndSetVolume [simp]:
  "routingOf (snd (checkAndSetVolume E stream index out device delayMs force st)) = routingOf st"
  by (simp add: routingOf_def fun_eq_iff checkAndSetVolume_frame)

lemma mOutputs_checkAndSetVolume [simp]:
  "mOutputs (snd (checkAndSetVolume E stream index out device delayMs force st)) = mOutputs st"
  by (simp add: checkAndSetVolume_frame)

lemma mOutputs_setMuteCount [simp]: "mOutputs (setMuteCount out stream n st) = mOutputs st"
  by (simp add: setMuteCount_def)

lemma routingOf_setStreamMute [simp]:
  "routingOf (setStreamMute E stream on out delayMs device st) = routingOf st"
  by (simp add: setStreamMute_def Let_def)

lemma mOutputs_setStreamMute [simp]:
  "mOutputs (setStreamMute E stream on out delayMs device st) = mOutputs st"
  by (simp add: setStreamMute_def Let_def)

lemma routingOf_setStrategyMute [simp]:
  "routingOf (setStrategyMute E strategy on out delayMs device st) = routingOf st"
  unfolding setStrategyMute_def by (rule foldl_preserves) simp

lemma mOutputs_setStrategyMute [simp]:
  "mOutputs (setStrategyMute E strategy on out delayMs device st) = mOutputs st"
  unfolding setStrategyMute_def by (rule foldl_preserves) simp

lemma routingOf_applyStreamVolumes [simp]:
  "routingOf (applyStreamVolumes E out device delayMs force st) = routingOf st"
  unfolding applyStreamVolumes_def by (rule foldl_preserves) simp

lemma routingOf_informInputs [simp]:
  "routingOf (informInputs E device delayMs st) = routingOf st"
  unfolding informInputs_def by (rule foldl_preserves) simp

lemma routingOf_muteOutputs_step [simp]:
  "routingOf (fst (muteOutputs_step E out i mute delayMs acc j)) = routingOf (fst acc)"
  by (simp add: muteOutputs_step_def Let_def)

lemma routingOf_muteStrategies_step [simp]:
  "routingOf (fst (muteStrategies_step E out device shouldMute delayMs acc i)) = routingOf (fst acc)"
proof -
  have "\<And>mute a. routingOf (fst (foldl (muteOutputs_step E out i mute delayMs) a (mOutputs (fst acc)))) =
      routingOf (fst a)"
    by (rule foldl_preserves [where p = "\<lambda>a. routingOf (fst a)"]) simp
  then show ?thesis
    by (simp add: muteStrategies_step_def Let_def)
qed

lemma routingOf_tempMute_step [simp]:
  "routingOf (tempMute_step E out device delayMs d st i) = routingOf st"
  by (simp add: tempMute_step_def)

lemma routingOf_muteStrategies [simp]:
  "routingOf (fst (foldl (muteStrategies_step E out device shouldMute delayMs) acc strategies)) =
     routingOf (fst acc)"
  by (rule foldl_preserves [where p = "\<lambda>a. routingOf (fst a)"]) simp

lemma routingOf_tempMute [simp]:
  "routingOf (foldl (tempMute_step E out device delayMs d) st strategies) = routingOf st"
  by (rule foldl_preserves) simp

lemma routingOf_checkDeviceMuteStrategies [simp]:
  "routingOf (snd (checkDeviceMuteStrategies E out prevDevice delayMs st)) = routingOf st"
  by (simp add: checkDeviceMuteStrategies_def Let_def)

lemma routingOf_resetOutputDevice [simp]:
  "routingOf (snd (resetOutputDevice E out delayMs patchHandle st)) = routingOf st"
  by (auto simp: resetOutputDevice_def resetDevice_def Let_def routingOf_def fun_eq_iff
      removeAudioPatch_def nextAudioPortGeneration_def split: option.splits)

lemma routingOf_installPatch [simp]:
  "routingOf (snd (snd (installPatch E patchHandle io patch delayMs st))) = routingOf st"
proof -
  have base: "\<And>s f. routingOf (s\<lparr>mAudioPatches := f\<rparr>) = routingOf s"
    "\<And>s. routingOf (nextAudioPortGeneration s) = routingOf s"
    "\<And>s h p. routingOf (addAudioPatch h p s) = routingOf s"
    "\<And>s p u. routingOf (snd (newAudioPatch p u s)) = routingOf s"
    by (simp_all add: routingOf_def fun_eq_iff nextAudioPortGeneration_def addAudioPatch_def
        newAudioPatch_def)
  show ?thesis
    by (simp add: installPatch_def installPatch_at_def Let_def base
        split: option.splits prod.splits)
qed





subsection \<open>Muting across a device change\<close>

lemma policy_streams_all: "stream \<in> set policy_streams"
  by (cases stream) (simp_all add: policy_streams_def)

lemma policy_streams_distinct: "distinct policy_streams"
  by (simp add: policy_streams_def)

lemma setStreamMute_count_step:
  "mMuteCount (outputs (setStreamMute E stream on out delayMs device st) out') stream' =
     (if out' = out \<and> stream' = stream then muteCountStep on (mMuteCount (outputs st out) stream)
      else mMuteCount (outputs st out') stream')"
  by (simp add: setStreamMute_count muteCountStep_def)

lemma foldl_setStreamMute_count:
  "distinct streams \<Longrightarrow>
   mMuteCount (outputs (foldl (\<lambda>s stream. if getStrategy E stream = strategy
                                then setStreamMute E stream on out delayMs device s else s)
                          st streams) out') stream' =
     (if out' = out \<and> stream' \<in> set streams \<and> getStrategy E stream' = strategy
      then muteCountStep on (mMuteCount (outputs st out') stream')
      else mMuteCount (outputs st out') stream')"
proof (induction streams arbitrary: st)
  case Nil
  then show ?case by simp
next
  case (Cons a streams)
  then show ?case
    by (auto simp: setStreamMute_count_step)
qed

lemma setStrategyMute_count:
  "mMuteCount (outputs (setStrategyMute E strategy on out delayMs device st) out') stream =
     (if out' = out \<and> getStrategy E stream = strategy
      then muteCountStep on (mMuteCount (outputs st out') stream)
      else mMuteCount (outputs st out') stream)"
  unfolding setStrategyMute_def
  by (simp add: foldl_setStreamMute_count [OF policy_streams_distinct] policy_streams_all)

lemma tempMute_step_count:
  assumes "\<And>stream. 0 \<le> mMuteCount (outputs st out) stream"
  shows "mMuteCount (outputs (tempMute_step E out device delayMs d st i) out') stream =
         mMuteCount (outputs st out') stream"
  using assms [of stream]
  by (simp add: tempMute_step_def setStrategyMute_count muteCountStep_def)

lemma tempMute_count:
  assumes "\<And>stream. 0 \<le> mMuteCount (outputs st out) stream"
  shows "mMuteCount (outputs (foldl (tempMute_step E out device delayMs d) st strategies) out') stream =
         mMuteCount (outputs st out') stream"
  using assms
proof (induction strategies arbitrary: st)
  case Nil
  then show ?case by simp
next
  case (Cons i strategies)
  have "\<And>stream. 0 \<le> mMuteCount (outputs (tempMute_step E out device delayMs d st i) out) stream"
    using Cons.prems by (simp add: tempMute_step_count)
  from Cons.IH [OF this] Cons.prems show ?case
    by (simp add: tempMute_step_count)
qed

text \<open>
  C6.  On an output that is not duplicated, is active and whose stored device differs
  from the previous device, let \<open>muteWaitMs\<close> be the wait left by the loop over the
  incompatible strategies, raised to twice the latency of the output when it was less.
  Then \<open>muteWaitMs\<close> is at least twice the latency (in 32-bit arithmetic, and as
  numbers when the latency is below \<open>2^31\<close>); every strategy active on the output is
  muted with the caller's delay and then unmuted with that delay plus four times the
  latency, on the stored device; the mute counters are after this what they were before
  it when none was negative; and the result is \<open>muteWaitMs\<close> minus the caller's delay
  when \<open>muteWaitMs\<close> is the greater, after a sleep of that length, and zero
  otherwise.
\<close>

theorem checkDeviceMuteStrategies_temporary_mute:
  fixes E :: Collaborators and st :: AudioPolicyManager and out :: audio_io_handle_t
    and prevDevice :: audio_devices_t and delayMs :: uint32_t
  assumes nd: "\<not> isDuplicated (outputs st out)"
    and act: "isActive (outputs st out)"
    and chg: "mDevice (outputs st out) \<noteq> prevDevice"
  defines "device \<equiv> mDevice (outputs st out)"
  defines "lat \<equiv> latency (outputs st out)"
  defines "acc1 \<equiv> foldl (muteStrategies_step E out device (popcount device \<ge> 2) delayMs) (st, 0)
                     all_strategies"
  defines "muteWaitMs \<equiv> (if snd acc1 < lat * 2 then lat * 2 else snd acc1)"
  defines "st2 \<equiv> foldl (\<lambda>s i. if isStrategyActive E (outputs s out) i
                                then setStrategyMute E i False out (delayMs + lat * 4) device
                                       (setStrategyMute E i True out delayMs AUDIO_DEVICE_NONE s)
                                else s) (fst acc1) all_strategies"
  shows "lat * 2 \<le> muteWaitMs \<and>
         (unat lat < 2 ^ 31 \<longrightarrow> 2 * unat lat \<le> unat muteWaitMs) \<and>
         fst (checkDeviceMuteStrategies E out prevDevice delayMs st) =
           (if muteWaitMs > delayMs then muteWaitMs - delayMs else 0) \<and>
         snd (checkDeviceMuteStrategies E out prevDevice delayMs st) =
           (if muteWaitMs > delayMs then emit (Usleep ((muteWaitMs - delayMs) * 1000)) st2 else st2) \<and>
         ((\<forall>stream. 0 \<le> mMuteCount (outputs (fst acc1) out) stream) \<longrightarrow>
            (\<forall>h stream. mMuteCount (outputs st2 h) stream = mMuteCount (outputs (fst acc1) h) stream))"
proof -
  have dev: "device_of st out = device"
    using nd by (simp add: device_of_def device_def)
  have r1: "routingOf (fst acc1) = routingOf st"
    unfolding acc1_def by simp
  have f1: "isActive (outputs (fst acc1) out)" "latency (outputs (fst acc1) out) = lat"
    using routingOf_fields [OF r1, of out] act by (simp_all add: lat_def)
  have le: "lat * 2 \<le> muteWaitMs"
    by (simp add: muteWaitMs_def not_less)
  have nat: "unat lat < 2 ^ 31 \<longrightarrow> 2 * unat lat \<le> unat muteWaitMs"
  proof
    assume "unat lat < 2 ^ 31"
    then have "unat (lat * 2) = 2 * unat lat"
      by (simp add: unat_word_ariths)
    with le show "2 * unat lat \<le> unat muteWaitMs"
      by (simp add: word_le_nat_alt)
  qed
  have tm: "tempMute_step E out device delayMs (lat * 4) =
      (\<lambda>s i. if isStrategyActive E (outputs s out) i
              then setStrategyMute E i False out (delayMs + lat * 4) device
                     (setStrategyMute E i True out delayMs AUDIO_DEVICE_NONE s)
              else s)"
    by (simp add: tempMute_step_def fun_eq_iff)
  have res: "checkDeviceMuteStrategies E out prevDevice delayMs st =
      (if muteWaitMs > delayMs
       then (muteWaitMs - delayMs, emit (Usleep ((muteWaitMs - delayMs) * 1000)) st2)
       else (0, st2))"
    using nd act chg f1
    by (simp add: checkDeviceMuteStrategies_def Let_def dev acc1_def [symmetric]
        muteWaitMs_def st2_def tm device_def [symmetric])
  have cnt: "(\<forall>stream. 0 \<le> mMuteCount (outputs (fst acc1) out) stream) \<longrightarrow>
      (\<forall>h stream. mMuteCount (outputs st2 h) stream = mMuteCount (outputs (fst acc1) h) stream)"
    unfolding st2_def tm [symmetric]
    by (simp add: tempMute_count)
  from le nat res cnt show ?thesis by simp
qed

theorem checkDeviceMuteStrategies_temporary_mute_witness:
  "fst (checkDeviceMuteStrategies exampleCollaborators 1 1 0 exampleManager) = 40 \<and>
   calls (tempMute_step exampleCollaborators 1 2 0 80 exampleManager STRATEGY_MEDIA) =
     [SetVolume 1 (- 15) AUDIO_STREAM_SYSTEM 2 0 False,
      SetVolume 1 (- 15) AUDIO_STREAM_MUSIC 2 0 False,
      SetVolume 1 (- 10) AUDIO_STREAM_SYSTEM 2 80 False,
      SetVolume 1 (- 10) AUDIO_STREAM_MUSIC 2 80 False]"
proof -
  have calls: "calls (tempMute_step exampleCollaborators 1 2 0 80 exampleManager STRATEGY_MEDIA) =
     [SetVolume 1 (- 15) AUDIO_STREAM_SYSTEM 2 0 False,
      SetVolume 1 (- 15) AUDIO_STREAM_MUSIC 2 0 False,
      SetVolume 1 (- 10) AUDIO_STREAM_SYSTEM 2 80 False,
      SetVolume 1 (- 10) AUDIO_STREAM_MUSIC 2 80 False]"
    by (simp add: tempMute_step_def example_isStrategyActive example_answers example_state
        example_output setStrategyMute_def policy_streams_def exampleStrategyForStream_def
        setStreamMute_def Let_def checkAndSetVolume_def device_of_def setMuteCount_def
        updOutput_def emit_def AUDIO_DEVICE_NONE_def AUDIO_DEVICE_OUT_ALL_SCO_def)
  have pc: "\<not> 2 \<le> popcount 2"
    by (simp add: popcount_def upt_rec)
  have "fst (checkDeviceMuteStrategies exampleCollaborators 1 1 0 exampleManager) = 40"
    using checkDeviceMuteStrategies_temporary_mute [where E = exampleCollaborators
        and st = exampleManager and out = 1 and prevDevice = 1 and delayMs = 0]
    by (simp add: example_state example_output pc example_muteStrategies)
  with calls show ?thesis by simp
qed

subsection \<open>Device selection for an output\<close>

text \<open>
  C1, as the code has it.  \<^verbatim>\<open>getNewOutputDevice\<close> returns the current device of the
  stream when the attached patch was installed by a uid other than the cached one;
  otherwise the preferred device found from explicit client routing; otherwise the
  device that \<^verbatim>\<open>getDeviceForStrategy\<close> gives for the first entry of the ordered list
  whose test holds, and \<^verbatim>\<open>AUDIO_DEVICE_NONE\<close> when none does.  Enforced-audible,
  accessibility, sonification-respectful, media, DTMF, beacon and rerouting are tested
  on the stream; phone is selected by a call in progress or by activity on any output
  of the stream's hardware module, sonification by activity on any output of that
  module.  In particular, with no such override, no call, neither phone nor
  sonification active on the module and media the first strategy active on the stream,
  the result is the device for media: the engine's device when no client routes media
  explicitly and the cache is not used.
\<close>

theorem getNewOutputDevice_priority:
  "getNewOutputDevice E st out fromCache =
     (if forcedByPatch st out then device_of st out
      else case fst (findPreferredDevice (outputs st out) STRATEGY_NONE (mAvailableOutputDevices st)) of
             Some deviceDesc \<Rightarrow> deviceType deviceDesc
           | None \<Rightarrow>
               (case find (strategyApplies E st out) strategy_priority of
                  Some (strategy, scope) \<Rightarrow> getDeviceForStrategy E st strategy fromCache
                | None \<Rightarrow> AUDIO_DEVICE_NONE)) \<and>
   (\<not> forcedByPatch st out \<and>
    fst (findPreferredDevice (outputs st out) STRATEGY_NONE (mAvailableOutputDevices st)) = None \<and>
    \<not> isInCall E \<and>
    \<not> isStrategyActiveOnSameModule E st (outputs st out) STRATEGY_PHONE \<and>
    \<not> isStrategyActiveOnSameModule E st (outputs st out) STRATEGY_SONIFICATION \<and>
    \<not> isStrategyActive E (outputs st out) STRATEGY_ENFORCED_AUDIBLE \<and>
    \<not> isStrategyActive E (outputs st out) STRATEGY_ACCESSIBILITY \<and>
    \<not> isStrategyActive E (outputs st out) STRATEGY_SONIFICATION_RESPECTFUL \<and>
    isStrategyActive E (outputs st out) STRATEGY_MEDIA \<longrightarrow>
      getNewOutputDevice E st out fromCache = getDeviceForStrategy E st STRATEGY_MEDIA fromCache \<and>
      (findPreferredDevice_all st STRATEGY_MEDIA (mAvailableOutputDevices st) = None \<and> \<not> fromCache \<longrightarrow>
         getNewOutputDevice E st out fromCache = engineGetDeviceForStrategy E STRATEGY_MEDIA))"
proof -
  have eq: "getNewOutputDevice E st out fromCache =
     (if forcedByPatch st out then device_of st out
      else case fst (findPreferredDevice (outputs st out) STRATEGY_NONE (mAvailableOutputDevices st)) of
             Some deviceDesc \<Rightarrow> deviceType deviceDesc
           | None \<Rightarrow>
               (case find (strategyApplies E st out) strategy_priority of
                  Some (strategy, scope) \<Rightarrow> getDeviceForStrategy E st strategy fromCache
                | None \<Rightarrow> AUDIO_DEVICE_NONE))"
    by (simp add: getNewOutputDevice_def forcedByPatch_def strategy_priority_def Let_def
        split: option.splits)
  have media: "getNewOutputDevice E st out fromCache = getDeviceForStrategy E st STRATEGY_MEDIA fromCache"
    if "\<not> forcedByPatch st out"
      "fst (findPreferredDevice (outputs st out) STRATEGY_NONE (mAvailableOutputDevices st)) = None"
      "\<not> isInCall E"
      "\<not> isStrategyActiveOnSameModule E st (outputs st out) STRATEGY_PHONE"
      "\<not> isStrategyActiveOnSameModule E st (outputs st out) STRATEGY_SONIFICATION"
      "\<not> isStrategyActive E (outputs st out) STRATEGY_ENFORCED_AUDIBLE"
      "\<not> isStrategyActive E (outputs st out) STRATEGY_ACCESSIBILITY"
      "\<not> isStrategyActive E (outputs st out) STRATEGY_SONIFICATION_RESPECTFUL"
      "isStrategyActive E (outputs st out) STRATEGY_MEDIA"
    using that by (simp add: eq strategy_priority_def)
  have engine: "getDeviceForStrategy E st STRATEGY_MEDIA fromCache = engineGetDeviceForStrategy E STRATEGY_MEDIA"
    if "findPreferredDevice_all st STRATEGY_MEDIA (mAvailableOutputDevices st) = None" "\<not> fromCache"
    using that by (simp add: getDeviceForStrategy_def)
  from eq media engine show ?thesis by metis
qed

theorem getNewOutputDevice_priority_witness:
  "getNewOutputDevice exampleCollaborators exampleManager 1 False =
     engineGetDeviceForStrategy exampleCollaborators STRATEGY_MEDIA \<and>
   getNewOutputDevice exampleCollaborators exampleManager 1 False = 2"
proof -
  have pref: "findPreferredDevice exampleOutput s (mAvailableOutputDevices exampleManager) = (None, False)" for s
    by (simp add: findPreferredDevice_def clientsList_def exampleOutput_def)
  have hyps: "\<not> forcedByPatch exampleManager 1"
    "fst (findPreferredDevice (outputs exampleManager 1) STRATEGY_NONE
            (mAvailableOutputDevices exampleManager)) = None"
    "\<not> isInCall exampleCollaborators"
    "\<not> isStrategyActiveOnSameModule exampleCollaborators exampleManager (outputs exampleManager 1) STRATEGY_PHONE"
    "\<not> isStrategyActiveOnSameModule exampleCollaborators exampleManager (outputs exampleManager 1)
        STRATEGY_SONIFICATION"
    "\<not> isStrategyActive exampleCollaborators (outputs exampleManager 1) STRATEGY_ENFORCED_AUDIBLE"
    "\<not> isStrategyActive exampleCollaborators (outputs exampleManager 1) STRATEGY_ACCESSIBILITY"
    "\<not> isStrategyActive exampleCollaborators (outputs exampleManager 1) STRATEGY_SONIFICATION_RESPECTFUL"
    "isStrategyActive exampleCollaborators (outputs exampleManager 1) STRATEGY_MEDIA"
    "findPreferredDevice_all exampleManager STRATEGY_MEDIA (mAvailableOutputDevices exampleManager) = None"
    by (simp_all add: example_state example_isStrategyActive pref isStrategyActiveOnSameModule_def
        findPreferredDevice_all_def)
       (simp_all add: forcedByPatch_def isInCall_def exampleManager_def exampleCollaborators_def)
  have engine: "engineGetDeviceForStrategy exampleCollaborators STRATEGY_MEDIA = 2"
    by (simp add: exampleCollaborators_def)
  have "getNewOutputDevice exampleCollaborators exampleManager 1 False =
      engineGetDeviceForStrategy exampleCollaborators STRATEGY_MEDIA"
    using getNewOutputDevice_priority [where E = exampleCollaborators and st = exampleManager
        and out = 1 and fromCache = False] hyps
    by blast
  with engine show ?thesis by simp
qed

text \<open>
  C1 as stated fails when another output of the same hardware module plays a ringtone:
  no patch, no explicit routing and no call; of the strategies of the list only media
  is active on the stream, so the claim gives the device for media, 2; the function
  returns the device for sonification, 3.
\<close>

theorem getNewOutputDevice_module_counterexample:
  "\<not> forcedByPatch exampleRingingManager 1 \<and>
   fst (findPreferredDevice (outputs exampleRingingManager 1) STRATEGY_NONE
          (mAvailableOutputDevices exampleRingingManager)) = None \<and>
   \<not> isInCall exampleRingingCollaborators \<and>
   \<not> isStrategyActive exampleRingingCollaborators (outputs exampleRingingManager 1) STRATEGY_ENFORCED_AUDIBLE \<and>
   \<not> isStrategyActive exampleRingingCollaborators (outputs exampleRingingManager 1) STRATEGY_PHONE \<and>
   \<not> isStrategyActive exampleRingingCollaborators (outputs exampleRingingManager 1) STRATEGY_SONIFICATION \<and>
   \<not> isStrategyActive exampleRingingCollaborators (outputs exampleRingingManager 1) STRATEGY_ACCESSIBILITY \<and>
   \<not> isStrategyActive exampleRingingCollaborators (outputs exampleRingingManager 1)
        STRATEGY_SONIFICATION_RESPECTFUL \<and>
   isStrategyActive exampleRingingCollaborators (outputs exampleRingingManager 1) STRATEGY_MEDIA \<and>
   getDeviceForStrategy exampleRingingCollaborators exampleRingingManager STRATEGY_MEDIA False = 2 \<and>
   getNewOutputDevice exampleRingingCollaborators exampleRingingManager 1 False = 3"
proof -
  have outs: "outputs exampleRingingManager 1 = exampleOutput"
    "outputs exampleRingingManager 2 = exampleOutput\<lparr>isStreamActive := (\<lambda>s. s = AUDIO_STREAM_RING)\<rparr>"
    "mOutputs exampleRingingManager = [1, 2]"
    "mAudioPatches exampleRingingManager = Map.empty"
    "mAvailableOutputDevices exampleRingingManager = mAvailableOutputDevices exampleManager"
    by (simp_all add: exampleRingingManager_def exampleManager_def)
  have pref: "\<And>s. findPreferredDevice exampleOutput s (mAvailableOutputDevices exampleManager) = (None, False)"
    "\<And>s. findPreferredDevice (exampleOutput\<lparr>isStreamActive := (\<lambda>s. s = AUDIO_STREAM_RING)\<rparr>) s
        (mAvailableOutputDevices exampleManager) = (None, False)"
    by (simp_all add: findPreferredDevice_def clientsList_def exampleOutput_def)
  have dev: "\<And>s. getDeviceForStrategy exampleRingingCollaborators exampleRingingManager s False =
      (if s = STRATEGY_SONIFICATION then 3 else 2)"
    by (simp add: getDeviceForStrategy_def findPreferredDevice_all_def outs pref
        exampleRingingCollaborators_def)
  have call: "\<not> isInCall exampleRingingCollaborators"
    by (simp add: isInCall_def exampleRingingCollaborators_def exampleCollaborators_def)
  have module: "isStrategyActiveOnSameModule exampleRingingCollaborators exampleRingingManager
      exampleOutput s \<longleftrightarrow> s = STRATEGY_MEDIA \<or> s = STRATEGY_SONIFICATION \<or> s = STRATEGY_NONE" for s
    by (auto simp: isStrategyActiveOnSameModule_def outs sharesHwModuleWith_def
        example_isStrategyActive_ringing example_isStrategyActive)
  have force: "getForceUse exampleRingingCollaborators u = AUDIO_POLICY_FORCE_NONE" for u
    by (simp add: exampleRingingCollaborators_def exampleCollaborators_def)
  show ?thesis
    by (simp add: forcedByPatch_def getNewOutputDevice_def outs pref dev call module force
        example_isStrategyActive_ringing example_isStrategyActive)
qed

subsection \<open>Capture concurrency\<close>

lemma captureConflict_hotword:
  "recSource client = AUDIO_SOURCE_HOTWORD \<Longrightarrow>
   captureConflict E client inputDesc actives =
     (case find (\<lambda>a. inputSource E a \<noteq> AUDIO_SOURCE_HOTWORD \<or> hasPreemptedSession a (recSession client))
             (filter (competes client inputDesc) actives) of
        None \<Rightarrow> None
      | Some a \<Rightarrow> if inputSource E a \<noteq> AUDIO_SOURCE_HOTWORD
                  then Some API_INPUT_CONCURRENCY_CAPTURE
                  else Some API_INPUT_CONCURRENCY_HOTWORD)"
  by (induction actives) (auto simp: competes_def)

lemma captureConflict_other:
  "recSource client \<noteq> AUDIO_SOURCE_HOTWORD \<Longrightarrow>
   captureConflict E client inputDesc actives =
     (if list_ex (\<lambda>a. inputSource E a \<noteq> AUDIO_SOURCE_HOTWORD) (filter (competes client inputDesc) actives)
      then Some API_INPUT_CONCURRENCY_CAPTURE else None)"
  by (induction actives) (auto simp: competes_def)

lemma startInput_checked:
  assumes "getInputForClient st portId = Some (inp, client)"
    and "\<not> recActive client"
    and "\<not> is_virtual_input_device E (inDevice (inputs st inp))"
    and "mCallTxPatchModule st \<noteq> Some (inModuleHandle (inputs st inp))"
  shows "startInput E portId silenced st =
     (let st1 = (if silenced then st else stopSilencedClients E inp st) in
      case captureConflict E client (inputs st1 inp) (map (inputs st1) (getActiveInputs st1)) of
        Some flag \<Rightarrow> Inl (INVALID_OPERATION, {flag}, st1)
      | None \<Rightarrow>
          Inr (fst (foldl (preemptHotword_step E inp
                      (inIsSoundTrigger (inputs st1 inp) \<and> soundTriggerSupportsConcurrentCapture E))
                      ({}, st1) (getActiveInputs st1)),
               setClientActive inp portId silenced True
                 (snd (foldl (preemptHotword_step E inp
                      (inIsSoundTrigger (inputs st1 inp) \<and> soundTriggerSupportsConcurrentCapture E))
                      ({}, st1) (getActiveInputs st1)))))"
  using assms by (simp add: startInput_def Let_def split: option.splits)

text \<open>
  The two returns that come before the concurrency checks: a client that is already
  active, and a call whose transmit patch is on the hardware module of the input.
\<close>

lemma startInput_already_active:
  assumes "getInputForClient st portId = Some (inp, client)"
    and "recActive client"
  shows "startInput E portId silenced st = Inl (INVALID_OPERATION, {}, st)"
  using assms by (simp add: startInput_def)

lemma startInput_call_in_progress:
  assumes "getInputForClient st portId = Some (inp, client)"
    and "\<not> recActive client"
    and "\<not> is_virtual_input_device E (inDevice (inputs st inp))"
    and "mCallTxPatchModule st = Some (inModuleHandle (inputs st inp))"
  shows "startInput E portId silenced st =
           Inl (INVALID_OPERATION, {API_INPUT_CONCURRENCY_CALL}, st)"
  using assms by (simp add: startInput_def)

text \<open>
  C5, as the code has it.  For a client that is found and idle, on an input whose device
  is not virtual and with no call on the input's module, \<^verbatim>\<open>startInput\<close> first stops
  the silenced clients if the new client is not silenced; \<open>st1\<close> is the state this
  leaves (the state before the call for a silenced client) and \<open>competing\<close> its
  active inputs that compete with the client.  A hotword request looks for the first
  competing input whose active source is not hotword or that has the session of the
  request among its preempted sessions: it fails with the CAPTURE flag in the first
  case and with the HOTWORD flag in the second, and it is admitted when there is no
  such input.  Any other request fails with the CAPTURE flag when some competing input
  has an active source other than hotword and is admitted otherwise.  Every failure
  returns \<^verbatim>\<open>INVALID_OPERATION\<close> with the state \<open>st1\<close>: it returns before the
  client is made active.
\<close>

theorem startInput_concurrency:
  fixes E :: Collaborators and st :: AudioPolicyManager and silenced :: bool
    and inp :: audio_io_handle_t and client :: RecordClientDescriptor
  assumes found: "getInputForClient st portId = Some (inp, client)"
    and idle: "\<not> recActive client"
    and real: "\<not> is_virtual_input_device E (inDevice (inputs st inp))"
    and nocall: "mCallTxPatchModule st \<noteq> Some (inModuleHandle (inputs st inp))"
  defines "st1 \<equiv> (if silenced then st else stopSilencedClients E inp st)"
  defines "competing \<equiv> filter (competes client (inputs st1 inp)) (map (inputs st1) (getActiveInputs st1))"
  shows "(recSource client = AUDIO_SOURCE_HOTWORD \<longrightarrow>
           (case find (\<lambda>a. inputSource E a \<noteq> AUDIO_SOURCE_HOTWORD \<or>
                            hasPreemptedSession a (recSession client)) competing of
              Some a \<Rightarrow>
                startInput E portId silenced st =
                  Inl (INVALID_OPERATION,
                       {if inputSource E a \<noteq> AUDIO_SOURCE_HOTWORD
                        then API_INPUT_CONCURRENCY_CAPTURE else API_INPUT_CONCURRENCY_HOTWORD},
                       st1)
            | None \<Rightarrow> (\<exists>c s. startInput E portId silenced st = Inr (c, s)))) \<and>
         (recSource client \<noteq> AUDIO_SOURCE_HOTWORD \<longrightarrow>
           (if list_ex (\<lambda>a. inputSource E a \<noteq> AUDIO_SOURCE_HOTWORD) competing
            then startInput E portId silenced st =
                   Inl (INVALID_OPERATION, {API_INPUT_CONCURRENCY_CAPTURE}, st1)
            else (\<exists>c s. startInput E portId silenced st = Inr (c, s))))"
proof -
  note run = startInput_checked [OF found idle real nocall, of silenced,
      unfolded Let_def, folded st1_def]
  show ?thesis
  proof (cases "recSource client = AUDIO_SOURCE_HOTWORD")
    case True
    show ?thesis
      using True run
      by (simp add: captureConflict_hotword competing_def split: option.splits)
  next
    case False
    show ?thesis
      using False run
      by (simp add: captureConflict_other competing_def split: option.splits)
  qed
qed

theorem startInput_concurrency_witness:
  "startInput exampleCollaborators 20 True (exampleCaptureManager [5]) =
     Inl (INVALID_OPERATION, {API_INPUT_CONCURRENCY_HOTWORD}, exampleCaptureManager [5]) \<and>
   (\<exists>c s. startInput exampleCollaborators 20 True (exampleCaptureManager []) = Inr (c, s))"
  using startInput_concurrency [where E = exampleCollaborators and st = "exampleCaptureManager [5]"
      and portId = 20 and silenced = True, OF example_getInputForClient]
    startInput_concurrency [where E = exampleCollaborators and st = "exampleCaptureManager []"
      and portId = 20 and silenced = True, OF example_getInputForClient]
  by (simp add: competes_def exampleCollaborators_def
      exampleCaptureManager_def exampleManager_def exampleInput_def exampleHotwordClient_def
      getActiveInputs_def activeClients_def hasPreemptedSession_def
      AUDIO_INPUT_FLAG_MMAP_NOIRQ_def)

text \<open>
  C5 as stated fails: the competing input is active for hotword and has the session of
  the request among its preempted sessions, which is when the request fails with the
  HOTWORD flag, not when it is admitted.
\<close>

theorem startInput_preempted_counterexample:
  "startInput exampleCollaborators 20 True (exampleCaptureManager [5]) =
     Inl (INVALID_OPERATION, {API_INPUT_CONCURRENCY_HOTWORD}, exampleCaptureManager [5]) \<and>
   inputSource exampleCollaborators (inputs (exampleCaptureManager [5]) 1) = AUDIO_SOURCE_HOTWORD \<and>
   hasPreemptedSession (inputs (exampleCaptureManager [5]) 1) 5"
  by (simp add: startInput_def getInputForClient_def getClient_def exampleCollaborators_def
      exampleCaptureManager_def exampleManager_def exampleInput_def exampleHotwordClient_def
      getActiveInputs_def activeClients_def hasPreemptedSession_def
      AUDIO_INPUT_FLAG_MMAP_NOIRQ_def)

section \<open>Rescaling a volume index: the round trip\<close>

subsection \<open>Rounding to \<^verbatim>\<open>float\<close>\<close>

text \<open>
  \<open>float_exponent\<close> brackets its argument between two consecutive powers of two, so
  \<open>float32\<close> has a relative error of at most \<open>2 powi (- 24)\<close>, and it is the identity on
  the integers below \<open>2 ^ 24\<close>.
\<close>

lemma float_exponent_ge1:
  assumes "1 \<le> x"
  shows "2 powi float_exponent x \<le> x \<and> x < 2 powi (float_exponent x + 1)"
proof -
  let ?n = "\<lfloor>x\<rfloor>"
  have n: "0 < ?n" using assms by simp
  have b1: "1 \<le> bitlen ?n" using n by (simp add: bitlen_alt_def)
  from bitlen_bounds [OF n]
  have lo: "2 ^ nat (bitlen ?n - 1) \<le> ?n" and hi: "?n < 2 ^ nat (bitlen ?n)" by simp_all
  have e: "float_exponent x = bitlen ?n - 1" using assms by (simp add: float_exponent_def)
  have "(2::rat) powi (bitlen ?n - 1) = 2 ^ nat (bitlen ?n - 1)"
    using b1 by (simp add: power_int_def)
  also have "\<dots> = of_int (2 ^ nat (bitlen ?n - 1))" by simp
  also have "\<dots> \<le> of_int ?n" using lo by (simp only: of_int_le_iff)
  also have "\<dots> \<le> x" by simp
  finally have 1: "2 powi float_exponent x \<le> x" by (simp add: e)
  have "?n + 1 \<le> 2 ^ nat (bitlen ?n)" using hi by simp
  then have "(of_int (?n + 1) :: rat) \<le> of_int (2 ^ nat (bitlen ?n))"
    by (simp only: of_int_le_iff)
  moreover have "x < of_int (?n + 1)" by linarith
  ultimately have "x < 2 ^ nat (bitlen ?n)" by simp
  moreover have "(2::rat) powi (bitlen ?n - 1 + 1) = 2 ^ nat (bitlen ?n)"
    using b1 by (simp add: power_int_def)
  ultimately have 2: "x < 2 powi (float_exponent x + 1)" by (simp add: e)
  from 1 2 show ?thesis ..
qed

lemma float_exponent_lt1:
  assumes "0 < x" "x < 1"
  shows "2 powi float_exponent x \<le> x \<and> x < 2 powi (float_exponent x + 1)"
proof -
  define k where "k = bitlen \<lfloor>1 / x\<rfloor> - 1"
  have y: "1 \<le> 1 / x" using assms by simp
  have yb: "2 powi k \<le> 1 / x \<and> 1 / x < 2 powi (k + 1)"
    using float_exponent_ge1 [OF y] y by (simp add: float_exponent_def k_def)
  have k0: "0 \<le> k" using y by (simp add: bitlen_alt_def k_def)
  have p: "(2::rat) powi k = 2 ^ nat k" "(2::rat) powi (k + 1) = 2 * 2 ^ nat k"
    using k0 by (simp_all add: power_int_def nat_add_distrib)
  have pm0: "(2::rat) powi (- k) = 1 / 2 ^ nat k"
    by (simp add: power_int_minus p field_simps)
  have pm: "(2::rat) powi (- k) = 1 / 2 ^ nat k" "(2::rat) powi (- k - 1) = 1 / (2 * 2 ^ nat k)"
    "(2::rat) powi (- k + 1) = 2 / 2 ^ nat k" "(2::rat) powi (- k - 1 + 1) = 1 / 2 ^ nat k"
    using pm0 p(1) by (simp_all add: power_int_add power_int_diff power_int_minus field_simps)
  from yb p have lo: "2 ^ nat k \<le> 1 / x" and hi: "1 / x < 2 * 2 ^ nat k" by simp_all
  from lo assms have xle: "x * 2 ^ nat k \<le> 1"
    by (simp add: field_simps)
  from hi assms have xgt: "1 < x * (2 * 2 ^ nat k)"
    by (simp add: field_simps)
  show ?thesis
  proof (cases "x * 2 ^ nat k = 1")
    case True
    then have e: "float_exponent x = - k" using assms by (simp add: float_exponent_def Let_def k_def)
    from True have "x = 1 / 2 ^ nat k" by (simp add: field_simps)
    then show ?thesis
      unfolding e pm using assms by (simp add: field_simps)
  next
    case False
    then have e: "float_exponent x = - k - 1" using assms by (simp add: float_exponent_def Let_def k_def)
    from False xle have "x * 2 ^ nat k < 1" by simp
    then have "x < 1 / 2 ^ nat k" by (simp add: field_simps)
    moreover from xgt have "1 / (2 * 2 ^ nat k) \<le> x" by (simp add: field_simps)
    ultimately show ?thesis unfolding e pm by simp
  qed
qed

lemma float_exponent_bounds:
  "0 < x \<Longrightarrow> 2 powi float_exponent x \<le> x \<and> x < 2 powi (float_exponent x + 1)"
  using float_exponent_ge1 [of x] float_exponent_lt1 [of x] by (cases "1 \<le> x") auto

lemma round_half_even_error: "\<bar>of_int (round_half_even y) - y\<bar> \<le> 1 / 2"
proof -
  have "of_int \<lfloor>y\<rfloor> \<le> y" "y < of_int \<lfloor>y\<rfloor> + 1" by linarith+
  then show ?thesis
    unfolding round_half_even_def Let_def by (auto simp: abs_le_iff)
qed

lemma round_half_even_int [simp]: "round_half_even (of_int n) = n"
  by (simp add: round_half_even_def)

lemma float32_error:
  "\<bar>float32 x - x\<bar> \<le> \<bar>x\<bar> / 2 ^ 24"
proof (cases "x = 0")
  case True
  then show ?thesis by (simp add: float32_def)
next
  case False
  define e where "e = float_exponent \<bar>x\<bar>"
  define u :: rat where "u = 2 powi (e - 23)"
  have upos: "0 < u" by (simp add: u_def)
  have eb: "2 powi e \<le> \<bar>x\<bar>"
    using float_exponent_bounds [of "\<bar>x\<bar>"] False by (simp add: e_def)
  have ue: "u * 2 ^ 23 = 2 powi e"
    by (simp add: u_def power_int_diff)
  have f: "float32 x = sgn x * of_int (round_half_even (\<bar>x\<bar> / u)) * u"
    using False by (simp add: float32_def Let_def e_def u_def)
  have "float32 x - x = sgn x * (of_int (round_half_even (\<bar>x\<bar> / u)) * u - \<bar>x\<bar>)"
    using False by (cases "0 < x") (simp_all add: f algebra_simps)
  then have "\<bar>float32 x - x\<bar> = \<bar>of_int (round_half_even (\<bar>x\<bar> / u)) * u - \<bar>x\<bar>\<bar>"
    using False by (simp add: abs_mult)
  also have "\<dots> = \<bar>of_int (round_half_even (\<bar>x\<bar> / u)) - \<bar>x\<bar> / u\<bar> * u"
    using upos by (simp add: abs_mult_pos field_simps flip: abs_mult_pos)
  also have "\<dots> \<le> 1 / 2 * u"
    using round_half_even_error [of "\<bar>x\<bar> / u"] upos by (simp add: mult_right_mono)
  also have "\<dots> \<le> \<bar>x\<bar> / 2 ^ 24"
    using eb ue by (simp add: field_simps)
  finally show ?thesis .
qed

lemma float32_of_int:
  assumes "\<bar>n\<bar> < 2 ^ 24"
  shows "float32 (of_int n) = of_int n"
proof (cases "n = 0")
  case True
  then show ?thesis by (simp add: float32_def)
next
  case False
  define x :: rat where "x = \<bar>of_int n\<bar>"
  define e where "e = float_exponent x"
  have x1: "1 \<le> x" using False by (simp add: x_def flip: of_int_abs)
  have xlt: "x < 2 ^ 24" using assms unfolding x_def
    by (metis of_int_abs of_int_less_iff of_int_numeral of_int_power)
  have e0: "0 \<le> e"
    using x1 by (simp add: e_def float_exponent_def bitlen_alt_def)
  have "(2::rat) powi e \<le> x"
    using float_exponent_bounds [of x] x1 by (simp add: e_def)
  with xlt e0 have lt: "(2::rat) ^ nat e < 2 ^ 24" by (simp add: power_int_def)
  have "nat e < 24"
  proof (rule ccontr)
    assume "\<not> nat e < 24"
    then have "24 \<le> nat e" by simp
    then have "(2::rat) ^ 24 \<le> 2 ^ nat e" by (rule power_increasing) simp
    with lt show False by simp
  qed
  then have e24: "e < 24" by simp
  define k where "k = nat (23 - e)"
  have u: "(2::rat) powi (e - 23) = 1 / 2 ^ k"
    using e24 by (simp add: power_int_def k_def nat_diff_distrib field_simps)
  have m: "x / (1 / 2 ^ k) = of_int (\<bar>n\<bar> * 2 ^ k)"
    by (simp add: x_def)
  have "float32 (of_int n) = sgn (of_int n) * of_int (round_half_even (x / (1 / 2 ^ k))) * (1 / 2 ^ k)"
    using False by (simp add: float32_def Let_def x_def [symmetric] e_def [symmetric] u)
  also have "\<dots> = sgn (of_int n) * of_int (\<bar>n\<bar> * 2 ^ k) * (1 / 2 ^ k)"
    by (simp only: m round_half_even_int)
  also have "\<dots> = sgn (of_int n) * \<bar>of_int n\<bar>"
    by simp
  also have "\<dots> = of_int n"
    by (simp add: sgn_mult_abs)
  finally show ?thesis .
qed

lemma float32_of_int_diff:
  "\<bar>a - b\<bar> < 2 ^ 24 \<Longrightarrow> float32 (of_int a - of_int b) = of_int (a - b)"
  using float32_of_int [of "a - b"] by simp

lemma float32_of_int_mult:
  "\<bar>a * b\<bar> < 2 ^ 24 \<Longrightarrow> float32 (of_int a * of_int b) = of_int (a * b)"
  using float32_of_int [of "a * b"] by simp

lemma float32_of_int_add:
  "\<bar>a + b\<bar> < 2 ^ 24 \<Longrightarrow> float32 (of_int a + of_int b) = of_int (a + b)"
  using float32_of_int [of "a + b"] by simp

lemma float32_quotient_floor:
  fixes p r m :: int
  assumes p: "0 \<le> p" and r: "0 < r" "r < 2048" and q: "p div r < 2048" and m: "0 \<le> m" "m < 2048"
  shows "\<lfloor>float32 (of_int m + float32 (of_int p / of_int r))\<rfloor> = m + p div r \<and>
         0 \<le> float32 (of_int m + float32 (of_int p / of_int r))"
proof (cases "r dvd p")
  case True
  then have "(of_int p / of_int r :: rat) = of_int (p div r)"
    by (simp add: of_int_div)
  moreover have "0 \<le> p div r" using p r by (simp add: pos_imp_zdiv_nonneg_iff)
  ultimately show ?thesis
    using q m by (simp add: float32_of_int float32_of_int_add)
next
  case False
  define a where "a = p div r"
  define x :: rat where "x = of_int p / of_int r"
  define s :: rat where "s = of_int m + float32 x"
  have a0: "0 \<le> a" using p r by (simp add: a_def pos_imp_zdiv_nonneg_iff)
  have "1 \<le> p mod r \<and> p mod r \<le> r - 1"
    using False r(1)
    by (metis pos_mod_bound mod_eq_0_iff_dvd pos_mod_sign int_one_le_iff_zero_less zle_diff1_eq
        order_le_less)
  then have md: "1 \<le> p mod r" "p mod r \<le> r - 1" by simp_all
  have xeq: "x = of_int a + of_int (p mod r) / of_int r"
    unfolding x_def a_def by (metis of_int_div_aux)
  have inv: "(1::rat) / 2048 < 1 / of_int r"
    using r by (simp add: field_simps)
  have "(1::rat) / of_int r \<le> of_int (p mod r) / of_int r"
    using md(1) r by (intro divide_right_mono) simp_all
  then have lo: "of_int a + 1 / of_int r \<le> x"
    by (simp add: xeq)
  have "(of_int (p mod r) :: rat) \<le> of_int (r - 1)"
    using md(2) by (simp only: of_int_le_iff)
  then have "of_int (p mod r) / of_int r \<le> (of_int (r - 1) :: rat) / of_int r"
    using r by (intro divide_right_mono) simp_all
  also have "\<dots> = 1 - 1 / of_int r"
    using r by (simp add: field_simps)
  finally have hi: "x \<le> of_int a + 1 - 1 / of_int r"
    by (simp add: xeq)
  have rpos: "(0::rat) < 1 / of_int r"
    using r by simp
  have ar: "(0::rat) \<le> of_int a" "(of_int a :: rat) \<le> 2047"
    using a0 q by (simp_all add: a_def)
  have mr: "(0::rat) \<le> of_int m" "(of_int m :: rat) \<le> 2047"
    using m by simp_all
  have xb: "0 \<le> x" "x < 2048"
    using lo hi ar rpos by linarith+
  have "\<bar>float32 x - x\<bar> \<le> \<bar>x\<bar> / 2 ^ 24"
    by (rule float32_error)
  also have "\<dots> \<le> 2048 / 2 ^ 24"
    using xb by (intro divide_right_mono) simp_all
  finally have e1: "\<bar>float32 x - x\<bar> \<le> 1 / 8192"
    by simp
  have sb: "0 \<le> s" "s < 4096"
    unfolding s_def using e1 lo hi ar rpos mr inv by linarith+
  have "\<bar>float32 s - s\<bar> \<le> \<bar>s\<bar> / 2 ^ 24"
    by (rule float32_error)
  also have "\<dots> \<le> 4096 / 2 ^ 24"
    using sb by (intro divide_right_mono) simp_all
  finally have e2: "\<bar>float32 s - s\<bar> \<le> 1 / 4096"
    by simp
  have b: "of_int m + of_int a \<le> float32 s" "float32 s < of_int m + of_int a + 1"
    using e1 e2 lo hi inv unfolding s_def by linarith+
  then have "of_int (m + a) \<le> float32 s" "float32 s < of_int (m + a) + 1"
    by simp_all
  then have "\<lfloor>float32 s\<rfloor> = m + a"
    by (rule floor_unique)
  moreover have "0 \<le> float32 s"
    using b(1) ar mr by linarith
  ultimately show ?thesis by (simp add: s_def x_def a_def)
qed

subsection \<open>The value of \<^verbatim>\<open>rescaleVolumeIndex\<close>\<close>

text \<open>
  On valid ranges and an index of the source range, the \<^verbatim>\<open>float\<close> computation returns
  the integer quotient: the rounding errors of the quotient and of the sum stay below the
  distance \<open>1 / r\<close> between a non-integer quotient by \<open>r\<close> and the next integer.
\<close>

lemma rescaleVolumeIndex_exact:
  assumes ne: "srcStream \<noteq> dstStream"
    and src: "validIndexRange E srcStream" and dst: "validIndexRange E dstStream"
    and i: "getVolumeIndexMin E srcStream \<le> i" "i \<le> getVolumeIndexMax E srcStream"
  shows "rescaleVolumeIndex E i srcStream dstStream =
           Some (getVolumeIndexMin E dstStream +
                 ((i - getVolumeIndexMin E srcStream) * indexSteps E dstStream) div
                   indexSteps E srcStream)"
proof -
  define mS where "mS = getVolumeIndexMin E srcStream"
  define xS where "xS = getVolumeIndexMax E srcStream"
  define mD where "mD = getVolumeIndexMin E dstStream"
  define xD where "xD = getVolumeIndexMax E dstStream"
  define p where "p = (i - mS) * (xD - mD)"
  define r where "r = xS - mS"
  have s: "0 \<le> mS" "mS < xS" "xS < 2048" and d: "0 \<le> mD" "mD < xD" "xD < 2048"
    using src dst by (simp_all add: validIndexRange_def mS_def xS_def mD_def xD_def)
  have i': "mS \<le> i" "i \<le> xS"
    using i by (simp_all add: mS_def xS_def)
  have c: "float32 (of_int mS) = of_int mS" "float32 (of_int xS) = of_int xS"
    "float32 (of_int mD) = of_int mD" "float32 (of_int xD) = of_int xD"
    "float32 (of_int i) = of_int i"
    using s d i' by (simp_all add: float32_of_int)
  have f1: "float32 (of_int i - of_int mS) = of_int i - of_int mS"
    using float32_of_int_diff [of i mS] s i' by simp
  have f2: "float32 (of_int xD - of_int mD) = of_int xD - of_int mD"
    using float32_of_int_diff [of xD mD] d by simp
  have f3: "float32 (of_int xS - of_int mS) = of_int r"
    unfolding r_def using float32_of_int_diff [of xS mS] s by simp
  have "(i - mS) * (xD - mD) \<le> 2048 * 2048"
    using s d i' by (intro mult_mono) simp_all
  moreover have p0: "0 \<le> p"
    unfolding p_def using d i' by simp
  ultimately have f4: "float32 ((of_int i - of_int mS) * (of_int xD - of_int mD)) = of_int p"
    unfolding p_def using float32_of_int_mult [of "i - mS" "xD - mD"] by simp
  have r: "0 < r" "r < 2048"
    using s by (simp_all add: r_def)
  have "p \<le> r * (xD - mD)"
    unfolding p_def r_def using i' d by (intro mult_right_mono) simp_all
  then have "p div r \<le> (r * (xD - mD)) div r"
    using r by (intro zdiv_mono1) simp_all
  then have q: "p div r < 2048"
    using r d by simp
  have fl: "\<lfloor>float32 (of_int mD + float32 (of_int p / of_int r))\<rfloor> = mD + p div r"
    and nn: "0 \<le> float32 (of_int mD + float32 (of_int p / of_int r))"
    using float32_quotient_floor [OF p0 r q d(1)] d by simp_all
  have rng: "0 \<le> mD + p div r" "mD + p div r < 2 ^ 31"
    using q d p0 r by (simp_all add: pos_imp_zdiv_nonneg_iff)
  have "float_to_int (float32 (of_int mD + float32 (of_int p / of_int r))) = Some (mD + p div r)"
    using fl nn rng by (simp add: float_to_int_def)
  moreover have "rat_of_int r \<noteq> 0"
    using r by simp
  ultimately have "rescaleVolumeIndex E i srcStream dstStream = Some (mD + p div r)"
    using ne
    by (simp add: rescaleVolumeIndex_def Let_def c f1 f2 f3 f4
        mS_def [symmetric] xS_def [symmetric] mD_def [symmetric] xD_def [symmetric])
  then show ?thesis
    by (simp add: p_def r_def indexSteps_def mS_def xS_def mD_def xD_def)
qed

lemma div_truncation:
  fixes p r :: int
  assumes "0 < r"
  shows "of_int (p div r) \<le> (of_int p / of_int r :: rat)"
    and "(of_int p / of_int r :: rat) < of_int (p div r) + 1"
proof -
  have e: "p div r = \<lfloor>(of_int p / of_int r :: rat)\<rfloor>"
    by (simp add: floor_divide_of_int_eq)
  show "of_int (p div r) \<le> (of_int p / of_int r :: rat)"
    unfolding e by linarith
  show "(of_int p / of_int r :: rat) < of_int (p div r) + 1"
    unfolding e by linarith
qed

lemma round_trip_int:
  fixes d a b :: int
  assumes "0 \<le> d" "0 < a" "0 < b"
  shows "((d * b) div a * a) div b \<le> d"
    and "(d - ((d * b) div a * a) div b) * b < a + b"
proof -
  define q where "q = (d * b) div a"
  define k where "k = (q * a) div b"
  have 1: "d * b = q * a + (d * b) mod a"
    unfolding q_def by simp
  have 2: "q * a = k * b + (q * a) mod b"
    unfolding k_def by simp
  have t1: "0 \<le> (d * b) mod a" "(d * b) mod a < a"
    using assms by simp_all
  have t2: "0 \<le> (q * a) mod b" "(q * a) mod b < b"
    using assms by simp_all
  have "k * b \<le> d * b"
    using 1 2 t1 t2 by linarith
  then have "k \<le> d"
    using assms(3) by simp
  moreover have "(d - k) * b = (d * b) mod a + (q * a) mod b"
    using 1 2 by (simp add: algebra_simps)
  ultimately show "((d * b) div a * a) div b \<le> d"
    and "(d - ((d * b) div a * a) div b) * b < a + b"
    using t1 t2 by (simp_all add: q_def k_def)
qed

lemma example_ranges:
  "validIndexRange exampleVolumeCurves AUDIO_STREAM_MUSIC"
  "validIndexRange exampleVolumeCurves AUDIO_STREAM_VOICE_CALL"
  by (simp_all add: validIndexRange_def exampleVolumeCurves_def)


text \<open>
  C9.  For two different streams \<open>A\<close> and \<open>B\<close> with valid index ranges and an index \<open>i\<close> in
  the range of \<open>A\<close>, both calls of the round trip return.  Each integer truncation loses
  less than one index step of the scale it produces: the index \<open>j\<close> on the scale of \<open>B\<close> is
  the floor of the exact image of \<open>i\<close>, and the index \<open>k\<close> back on the scale of \<open>A\<close> is the
  floor of the exact image of \<open>j\<close>.  So the round trip never exceeds \<open>i\<close>, and it falls
  short of \<open>i\<close> by fewer than \<open>indexSteps A / indexSteps B + 1\<close> steps of \<open>A\<close>: one step of
  \<open>B\<close> is worth \<open>indexSteps A / indexSteps B\<close> steps of \<open>A\<close>.  Rescaling from a stream to
  itself returns the index unchanged, for every index and every range.
\<close>

theorem rescaleVolumeIndex_round_trip:
  assumes ne: "A \<noteq> B"
    and a: "validIndexRange E A" and b: "validIndexRange E B"
    and i: "getVolumeIndexMin E A \<le> i" "i \<le> getVolumeIndexMax E A"
  shows "\<exists>j k. rescaleVolumeIndex E i A B = Some j \<and>
               rescaleVolumeIndex E j B A = Some k \<and>
               getVolumeIndexMin E B \<le> j \<and> j \<le> getVolumeIndexMax E B \<and>
               of_int j \<le> exactRescale E i A B \<and> exactRescale E i A B < of_int j + 1 \<and>
               of_int k \<le> exactRescale E j B A \<and> exactRescale E j B A < of_int k + 1 \<and>
               k \<le> i \<and> (i - k) * indexSteps E B < indexSteps E A + indexSteps E B \<and>
               rescaleVolumeIndex E i A A = Some i"
proof -
  define j where "j = getVolumeIndexMin E B +
    ((i - getVolumeIndexMin E A) * indexSteps E B) div indexSteps E A"
  define k where "k = getVolumeIndexMin E A +
    ((j - getVolumeIndexMin E B) * indexSteps E A) div indexSteps E B"
  have sa: "0 < indexSteps E A" and sb: "0 < indexSteps E B"
    using a b by (simp_all add: validIndexRange_def indexSteps_def)
  have d0: "0 \<le> i - getVolumeIndexMin E A"
    using i by simp
  have 1: "rescaleVolumeIndex E i A B = Some j"
    unfolding j_def using ne a b i by (rule rescaleVolumeIndex_exact)
  have "(i - getVolumeIndexMin E A) * indexSteps E B \<le> indexSteps E A * indexSteps E B"
    using i sb by (intro mult_right_mono) (simp_all add: indexSteps_def)
  then have "((i - getVolumeIndexMin E A) * indexSteps E B) div indexSteps E A
      \<le> (indexSteps E A * indexSteps E B) div indexSteps E A"
    using sa by (intro zdiv_mono1) simp_all
  then have jhi: "j \<le> getVolumeIndexMax E B"
    using sa by (simp add: j_def indexSteps_def)
  have jlo: "getVolumeIndexMin E B \<le> j"
    using d0 sa sb by (simp add: j_def pos_imp_zdiv_nonneg_iff)
  have 2: "rescaleVolumeIndex E j B A = Some k"
    unfolding k_def using ne [symmetric] b a jlo jhi by (rule rescaleVolumeIndex_exact)
  have t1: "of_int j \<le> exactRescale E i A B" "exactRescale E i A B < of_int j + 1"
    using div_truncation [OF sa, of "(i - getVolumeIndexMin E A) * indexSteps E B"]
    by (simp_all add: j_def exactRescale_def)
  have t2: "of_int k \<le> exactRescale E j B A" "exactRescale E j B A < of_int k + 1"
    using div_truncation [OF sb, of "(j - getVolumeIndexMin E B) * indexSteps E A"]
    by (simp_all add: k_def exactRescale_def)
  have k': "k = getVolumeIndexMin E A +
    (((i - getVolumeIndexMin E A) * indexSteps E B) div indexSteps E A * indexSteps E A)
      div indexSteps E B"
    by (simp add: k_def j_def)
  have e: "i - k = i - getVolumeIndexMin E A -
    (((i - getVolumeIndexMin E A) * indexSteps E B) div indexSteps E A * indexSteps E A)
      div indexSteps E B"
    by (simp add: k')
  have "k \<le> i"
    using round_trip_int(1) [OF d0 sa sb] e by linarith
  moreover have "(i - k) * indexSteps E B < indexSteps E A + indexSteps E B"
    using round_trip_int(2) [OF d0 sa sb] by (simp only: e)
  ultimately have 3: "k \<le> i" "(i - k) * indexSteps E B < indexSteps E A + indexSteps E B"
    by simp_all
  have 4: "rescaleVolumeIndex E i A A = Some i"
    by (simp add: rescaleVolumeIndex_def)
  show ?thesis
    using 1 2 jlo jhi t1 t2 3 4 by blast
qed

theorem rescaleVolumeIndex_round_trip_witness:
  "AUDIO_STREAM_MUSIC \<noteq> AUDIO_STREAM_VOICE_CALL \<and>
   validIndexRange exampleVolumeCurves AUDIO_STREAM_MUSIC \<and>
   validIndexRange exampleVolumeCurves AUDIO_STREAM_VOICE_CALL \<and>
   getVolumeIndexMin exampleVolumeCurves AUDIO_STREAM_MUSIC \<le> 14 \<and>
   14 \<le> getVolumeIndexMax exampleVolumeCurves AUDIO_STREAM_MUSIC \<and>
   (\<exists>j k. rescaleVolumeIndex exampleVolumeCurves 14 AUDIO_STREAM_MUSIC AUDIO_STREAM_VOICE_CALL = Some j \<and>
          rescaleVolumeIndex exampleVolumeCurves j AUDIO_STREAM_VOICE_CALL AUDIO_STREAM_MUSIC = Some k \<and>
          k \<le> 14 \<and>
          (14 - k) * indexSteps exampleVolumeCurves AUDIO_STREAM_VOICE_CALL
            < indexSteps exampleVolumeCurves AUDIO_STREAM_MUSIC +
              indexSteps exampleVolumeCurves AUDIO_STREAM_VOICE_CALL)"
proof -
  have r: "getVolumeIndexMin exampleVolumeCurves AUDIO_STREAM_MUSIC \<le> 14"
    "14 \<le> getVolumeIndexMax exampleVolumeCurves AUDIO_STREAM_MUSIC"
    by (simp_all add: exampleVolumeCurves_def)
  have ne: "AUDIO_STREAM_MUSIC \<noteq> AUDIO_STREAM_VOICE_CALL"
    by simp
  show ?thesis
    using rescaleVolumeIndex_round_trip [OF ne example_ranges r] ne example_ranges r
    by blast
qed


text \<open>
  C9 read as a tolerance of one step of \<open>A\<close> for each of the two truncations fails: with
  the range 0 to 15 for music and 1 to 5 for voice call, index 14 of music becomes index 4
  of voice call, which comes back as index 11 of music, three steps below 14.
\<close>

theorem rescaleVolumeIndex_round_trip_counterexample:
  "rescaleVolumeIndex exampleVolumeCurves 14 AUDIO_STREAM_MUSIC AUDIO_STREAM_VOICE_CALL = Some 4 \<and>
   rescaleVolumeIndex exampleVolumeCurves 4 AUDIO_STREAM_VOICE_CALL AUDIO_STREAM_MUSIC = Some 11 \<and>
   validIndexRange exampleVolumeCurves AUDIO_STREAM_MUSIC \<and>
   validIndexRange exampleVolumeCurves AUDIO_STREAM_VOICE_CALL \<and>
   \<bar>14 - 11 :: int\<bar> > 2"
  by code_simp
end
